theory Spec2Isabelle
  imports Main "HOL-Library.Char_ord" "HOL-Library.List_Lexorder"
begin

section \<open>Python values used by the order service\<close>

subsection \<open>Floats\<close>

text \<open>
  The monetary values of \<^verbatim>\<open>enhanced_order_service.py\<close> are Python floats, that is
  IEEE 754 binary64 numbers with round-to-nearest, ties-to-even. A finite float is kept
  as mantissa and exponent: \<open>Finite m e\<close> stands for \<open>m * 2 ^ e\<close>, in the form the format
  itself has (a normal number has a mantissa of exactly 53 bits, a subnormal one the
  exponent \<open>- 1074\<close>, zero is \<open>Finite 0 0\<close>), so that two finite floats are equal as
  numbers exactly when they are equal as terms. The sign of zero is not kept: the
  service only multiplies by positive constants and adds, starting from \<open>0.0\<close>, and
  no negative zero arises that way.
\<close>

datatype pyfloat = Finite int int | PosInf | NegInf | NaN

text \<open>Python's \<^verbatim>\<open>int.bit_length()\<close> for a non-negative integer.\<close>

function bit_length :: "int \<Rightarrow> int" where
  "bit_length n = (if n \<le> 0 then 0 else bit_length (n div 2) + 1)"
  by pat_completeness auto
termination
  by (relation "measure nat") auto

declare bit_length.simps [simp del]

text \<open>
  \<open>round_binary64 M E\<close> is the binary64 number nearest to the exact value
  \<open>M * 2 ^ E\<close>, ties to the even mantissa; a value that rounds to \<open>2 ^ 1024\<close> or beyond
  is an infinity.
\<close>

definition round_binary64 :: "int \<Rightarrow> int \<Rightarrow> pyfloat" where
  "round_binary64 M E =
     (if M = 0 then Finite 0 0
      else
        (let a = \<bar>M\<bar>;
             e = max (E + bit_length a - 53) (- 1074);
             m = (if e \<le> E then a * 2 ^ nat (E - e)
                  else (let q = a div 2 ^ nat (e - E); r = a mod 2 ^ nat (e - E)
                        in if 2 ^ nat (e - E) < 2 * r \<or> (2 * r = 2 ^ nat (e - E) \<and> odd q)
                           then q + 1 else q));
             e' = (if m = 2 ^ 53 then e + 1 else e);
             m' = (if m = 2 ^ 53 then 2 ^ 52 else m)
         in if 971 < e' then (if 0 < M then PosInf else NegInf)
            else if m' = 0 then Finite 0 0
            else Finite (if 0 < M then m' else - m') e'))"

text \<open>
  A decimal literal of the source, such as \<^verbatim>\<open>29.99\<close>, is the float nearest to the
  fraction \<open>p / q\<close> it denotes (\<open>q > 0\<close>). The quotient is taken with at least 56
  significant bits and a sticky bit for the remainder, then rounded once.
\<close>

definition float_literal :: "int \<Rightarrow> int \<Rightarrow> pyfloat" where
  "float_literal p q =
     (let t = nat (max 0 (56 + bit_length q - bit_length \<bar>p\<bar>));
          Q = (\<bar>p\<bar> * 2 ^ t) div q;
          R = (\<bar>p\<bar> * 2 ^ t) mod q;
          M = 2 * Q + (if R = 0 then 0 else 1)
      in round_binary64 (if p < 0 then - M else M) (- int t - 1))"

text \<open>
  The conversion of a Python \<^verbatim>\<open>int\<close> operand to a float, as \<^verbatim>\<open>float * int\<close> performs
  it: correctly rounded, and \<^verbatim>\<open>OverflowError\<close> (here \<open>None\<close>) when the integer is too
  large for a finite float.
\<close>

definition float_of_int :: "int \<Rightarrow> pyfloat option" where
  "float_of_int n =
     (case round_binary64 n 0 of
        Finite m e \<Rightarrow> Some (Finite m e)
      | _ \<Rightarrow> None)"

fun float_sign :: "pyfloat \<Rightarrow> int" where
  "float_sign (Finite m e) = sgn m"
| "float_sign PosInf = 1"
| "float_sign NegInf = - 1"
| "float_sign NaN = 0"

text \<open>Float addition and multiplication: the exact result, rounded once.\<close>

definition float_add :: "pyfloat \<Rightarrow> pyfloat \<Rightarrow> pyfloat" where
  "float_add x y =
     (case (x, y) of
        (Finite m1 e1, Finite m2 e2) \<Rightarrow>
          (let e = min e1 e2
           in round_binary64 (m1 * 2 ^ nat (e1 - e) + m2 * 2 ^ nat (e2 - e)) e)
      | _ \<Rightarrow>
          if x = NaN \<or> y = NaN then NaN
          else if (x = PosInf \<and> y = NegInf) \<or> (x = NegInf \<and> y = PosInf) then NaN
          else if x = PosInf \<or> y = PosInf then PosInf
          else NegInf)"

definition float_mul :: "pyfloat \<Rightarrow> pyfloat \<Rightarrow> pyfloat" where
  "float_mul x y =
     (case (x, y) of
        (Finite m1 e1, Finite m2 e2) \<Rightarrow> round_binary64 (m1 * m2) (e1 + e2)
      | _ \<Rightarrow>
          if float_sign x * float_sign y = 0 then NaN
          else if 0 < float_sign x * float_sign y then PosInf
          else NegInf)"

subsection \<open>Strings\<close>

text \<open>\<^verbatim>\<open>str(n)\<close> for a Python \<^verbatim>\<open>int\<close>, as the f-strings of the service use it.\<close>

function str_digits :: "int \<Rightarrow> string" where
  "str_digits n =
     (if n < 10 then [''0123456789'' ! nat n]
      else str_digits (n div 10) @ [''0123456789'' ! nat (n mod 10)])"
  by pat_completeness auto
termination
  by (relation "measure nat") auto

declare str_digits.simps [simp del]

definition str_int :: "int \<Rightarrow> string" where
  "str_int n = (if n < 0 then ''-'' @ str_digits (- n) else str_digits n)"

text \<open>Truth value of an optional string: \<^verbatim>\<open>None\<close> and \<^verbatim>\<open>""\<close> are false.\<close>

fun truthy :: "string option \<Rightarrow> bool" where
  "truthy None = False"
| "truthy (Some s) = (s \<noteq> [])"


section \<open>Data model\<close>

text \<open>The request models \<^verbatim>\<open>OrderItem\<close> and \<^verbatim>\<open>PlaceOrderRequest\<close>.\<close>

record OrderItem =
  product_id :: int
  sku :: string
  quantity :: int

record PlaceOrderRequest =
  req_customer_id :: int
  items :: "OrderItem list"
  req_idempotency_key :: "string option"

text \<open>
  A row of table \<^verbatim>\<open>Orders\<close> (the eleven columns of the \<^verbatim>\<open>INSERT\<close>) and a row of table
  \<^verbatim>\<open>Order_Items\<close>. The store keeps the values the statements pass; the column types
  of the schema are not part of the sources.
\<close>

record orders_row =
  order_id :: int
  customer_id :: int
  order_status :: string
  payment_status :: string
  order_total :: pyfloat
  subtotal :: pyfloat
  tax_amount :: pyfloat
  shipping_amount :: pyfloat
  totals_signature :: string
  idempotency_key :: "string option"
  created_at :: string

record order_items_row =
  row_order_id :: int
  row_product_id :: int
  row_sku :: string
  row_quantity :: int
  row_unit_price :: pyfloat

record database =
  Orders :: "orders_row list"
  Order_Items :: "order_items_row list"

text \<open>The dictionaries collected in the local list \<^verbatim>\<open>order_items\<close>.\<close>

record order_item =
  item_product_id :: int
  item_sku :: string
  item_quantity :: int
  item_unit_price :: pyfloat

text \<open>
  An entry of the local list \<^verbatim>\<open>reservations\<close>: the pair of \<^verbatim>\<open>idempotency_key\<close> and
  \<^verbatim>\<open>order_id\<close> that a release call sends.
\<close>

type_synonym reservation = "string \<times> string"

text \<open>
  The JSON bodies the service posts, and a posted request as its URL with its body.
  The third component of every result of the model is the list of the requests
  attempted, in order.
\<close>

datatype json_body =
    Reservation_data int int string string
  | Release_data string string
  | Notification_data string int int string
  | Shipment_data int int "order_item list"

type_synonym http_post = "string \<times> json_body"

definition INVENTORY_SERVICE_URL :: string where
  "INVENTORY_SERVICE_URL = ''http://inventoryservice:3000/v1''"

definition PAYMENT_SERVICE_URL :: string where
  "PAYMENT_SERVICE_URL = ''http://payment_service:8002/v1''"

definition NOTIFICATION_SERVICE_URL :: string where
  "NOTIFICATION_SERVICE_URL = ''http://notification_service:8080/v1''"

definition SHIPMENT_SERVICE_URL :: string where
  "SHIPMENT_SERVICE_URL = ''http://shipment_service:8001/v1''"

definition TAX_RATE :: pyfloat where
  "TAX_RATE = float_literal 5 100"

definition SHIPPING_COST :: pyfloat where
  "SHIPPING_COST = float_literal 1000 100"

text \<open>
  What \<^verbatim>\<open>requests.post\<close> to the reserve endpoint does: it returns a response (status
  code, text, and whether \<^verbatim>\<open>response.json()\<close> parses or raises with a message), or
  it raises a \<^verbatim>\<open>requests.RequestException\<close> (connection error, timeout) with a
  message. \<^verbatim>\<open>response.json()\<close> raises \<^verbatim>\<open>requests.exceptions.JSONDecodeError\<close>, which
  is a \<^verbatim>\<open>RequestException\<close>.
\<close>

datatype post_result =
    Response int string "string option"
  | RequestException string

datatype http_exception = HTTPException int string

text \<open>
  The dictionary \<^verbatim>\<open>payment_data\<close> of the payment step, and the answers of a charge.
\<close>

record payment_request =
  pay_order_id :: int
  pay_amount :: pyfloat
  pay_customer_id :: int
  pay_idempotency_key :: string

datatype charge_result = Approved | Declined | Charge_error

text \<open>
  Everything outside the service that an execution reads: the generated UUID, the
  inventory service's answers to the reserve calls (by position of the item in the
  request), the clock, the database driver's failures and the library functions
  \<^verbatim>\<open>hashlib.sha256(...).hexdigest()\<close> and the float formatting of \<^verbatim>\<open>json.dumps\<close>.
  \<open>db_fault = Some n\<close> says that the \<open>n\<close>-th writing statement of the request (counted
  from 0, the commit included) raises, with \<open>db_error\<close> as its message. The reading
  statements are taken to succeed. The results of the release, notification and
  shipment calls are not part of the environment: the source discards them, together
  with any exception, in \<^verbatim>\<open>try: ... except: pass\<close>. \<open>charge_response\<close> is what the
  payment service at \<^verbatim>\<open>PAYMENT_SERVICE_URL\<close> would answer to a charge carrying the
  dictionary \<^verbatim>\<open>payment_data\<close>; it is part of the world the claims speak of, and no
  definition of the model reads it, because the source never posts a charge.
\<close>

record environment =
  uuid4 :: string
  reserve_response :: "nat \<Rightarrow> json_body \<Rightarrow> post_result"
  time_millis :: int
  time_seconds :: int
  now_insert :: string
  now_response :: string
  db_fault :: "nat option"
  db_error :: string
  sha256_hexdigest :: "string \<Rightarrow> string"
  json_float :: "pyfloat \<Rightarrow> string"
  charge_response :: "payment_request \<Rightarrow> charge_result"

text \<open>The order dictionary of the success response, and the two responses.\<close>

record placed_order =
  resp_order_id :: int
  resp_customer_id :: int
  resp_order_status :: string
  resp_payment_status :: string
  resp_subtotal :: pyfloat
  resp_tax_amount :: pyfloat
  resp_shipping_amount :: pyfloat
  resp_order_total :: pyfloat
  resp_payment_id :: string
  resp_idempotency_key :: string
  resp_created_at :: string
  resp_items :: "order_item list"

datatype place_order_response =
    Order_already_exists string orders_row "order_items_row list" bool
  | Order_placed string placed_order

type_synonym 'a outcome = "(http_exception + 'a) \<times> database \<times> http_post list"

section \<open>place_order\<close>

text \<open>
  The idempotency key in use: the header if it is non-empty, else the key of the body
  if it is non-empty, else a fresh UUID.
\<close>

definition effective_key :: "environment \<Rightarrow> string option \<Rightarrow> PlaceOrderRequest \<Rightarrow> string" where
  "effective_key env header req =
     (if \<not> truthy header then
        (if truthy (req_idempotency_key req) then the (req_idempotency_key req)
         else uuid4 env)
      else the header)"

text \<open>
  \<^verbatim>\<open>SELECT * FROM Orders WHERE idempotency_key = %s\<close> with \<^verbatim>\<open>fetchone()\<close>, and
  \<^verbatim>\<open>SELECT * FROM Order_Items WHERE order_id = %s\<close> with \<^verbatim>\<open>fetchall()\<close>.
\<close>

definition select_order_by_key :: "database \<Rightarrow> string \<Rightarrow> orders_row option" where
  "select_order_by_key db k = find (\<lambda>r. idempotency_key r = Some k) (Orders db)"

definition select_items :: "database \<Rightarrow> int \<Rightarrow> order_items_row list" where
  "select_items db oid = filter (\<lambda>r. row_order_id r = oid) (Order_Items db)"

text \<open>
  The rollback loops: one release call for every entry of \<^verbatim>\<open>reservations\<close>, in order;
  an exception of a call is swallowed and the loop goes on.
\<close>

definition release_url :: string where
  "release_url = INVENTORY_SERVICE_URL @ ''/inventory/release''"

definition reserve_url :: string where
  "reserve_url = INVENTORY_SERVICE_URL @ ''/inventory/reserve''"

definition release_all :: "reservation list \<Rightarrow> http_post list" where
  "release_all rs = map (\<lambda>(k, oid). (release_url, Release_data k oid)) rs"

text \<open>
  The local variables of the reservation loop, and what leaves the loop by an
  exception: an \<^verbatim>\<open>HTTPException\<close>, raised after the loop's own rollback, or another
  exception, left to the outer handler.
\<close>

record loop_state =
  reservations :: "reservation list"
  order_items :: "order_item list"
  total_amount :: pyfloat
  posts :: "http_post list"

datatype raised = Raised_HTTP http_exception | Raised_other string

definition initial_state :: loop_state where
  "initial_state =
     \<lparr>reservations = [], order_items = [], total_amount = Finite 0 0, posts = []\<rparr>"

definition unit_price :: pyfloat where
  "unit_price = float_literal 2999 100"

definition reservation_data :: "string \<Rightarrow> int \<Rightarrow> OrderItem \<Rightarrow> json_body" where
  "reservation_data key oid item =
     Reservation_data (product_id item) (quantity item)
       (key @ ''_'' @ str_int (product_id item)) (str_int oid)"

definition unavailable :: "string \<Rightarrow> loop_state \<Rightarrow> raised \<times> loop_state" where
  "unavailable e st =
     (Raised_HTTP (HTTPException 503 (''Inventory service unavailable: '' @ e)),
      st\<lparr>posts := posts st @ release_all (reservations st)\<rparr>)"

fun reserve_inventory ::
  "environment \<Rightarrow> string \<Rightarrow> int \<Rightarrow> nat \<Rightarrow> OrderItem list \<Rightarrow> loop_state
     \<Rightarrow> (raised \<times> loop_state) + loop_state" where
  "reserve_inventory env key oid i [] st = Inr st"
| "reserve_inventory env key oid i (item # rest) st =
     (let st1 = st\<lparr>posts := posts st @ [(reserve_url, reservation_data key oid item)]\<rparr>
      in case reserve_response env i (reservation_data key oid item) of
           RequestException e \<Rightarrow> Inl (unavailable e st1)
         | Response status_code text json \<Rightarrow>
             if status_code = 200 then
               (case json of
                  Some e \<Rightarrow> Inl (unavailable e st1)
                | None \<Rightarrow>
                    (let st2 = st1
                           \<lparr>reservations := reservations st1 @
                              [(key @ ''_'' @ str_int (product_id item), str_int oid)],
                            order_items := order_items st1 @
                              [\<lparr>item_product_id = product_id item, item_sku = sku item,
                                item_quantity = quantity item, item_unit_price = unit_price\<rparr>]\<rparr>
                     in case float_of_int (quantity item) of
                          None \<Rightarrow> Inl (Raised_other ''int too large to convert to float'', st2)
                        | Some q \<Rightarrow>
                            reserve_inventory env key oid (Suc i) rest
                              (st2\<lparr>total_amount :=
                                 float_add (total_amount st2) (float_mul unit_price q)\<rparr>)))
             else
               Inl (Raised_HTTP (HTTPException 409
                      (''Failed to reserve inventory for product '' @
                       str_int (product_id item) @ '': '' @ text)),
                    st1\<lparr>posts := posts st1 @ release_all (reservations st1)\<rparr>))"

text \<open>
  The handlers of the outer \<^verbatim>\<open>try\<close>: an \<^verbatim>\<open>HTTPException\<close> is raised again; any other
  exception releases every entry of \<^verbatim>\<open>reservations\<close>, rolls the transaction back and
  becomes status 500. In both cases nothing of the transaction is committed.
\<close>

definition on_exception ::
  "database \<Rightarrow> raised \<Rightarrow> reservation list \<Rightarrow> http_post list \<Rightarrow> 'a outcome" where
  "on_exception db exn rs ps =
     (case exn of
        Raised_HTTP e \<Rightarrow> (Inl e, db, ps)
      | Raised_other msg \<Rightarrow>
          (Inl (HTTPException 500 (''Order processing failed: '' @ msg)), db,
           ps @ release_all rs))"

text \<open>Step 2: the totals and their signature.\<close>

definition join :: "string \<Rightarrow> string list \<Rightarrow> string" where
  "join sep xs = (case xs of [] \<Rightarrow> [] | x # ys \<Rightarrow> x @ concat (map (\<lambda>y. sep @ y) ys))"

definition json_dumps_sorted :: "environment \<Rightarrow> (string \<times> pyfloat) list \<Rightarrow> string" where
  "json_dumps_sorted env d =
     ''{'' @ join '', ''
        (map (\<lambda>(k, v). [CHR 0x22] @ k @ [CHR 0x22] @ '': '' @ json_float env v)
           (sort_key fst d)) @ ''}''"

definition totals_data ::
  "pyfloat \<Rightarrow> pyfloat \<Rightarrow> pyfloat \<Rightarrow> pyfloat \<Rightarrow> (string \<times> pyfloat) list" where
  "totals_data sub tax ship tot =
     [(''subtotal'', sub), (''tax'', tax), (''shipping'', ship), (''total'', tot)]"

definition sign_totals ::
  "environment \<Rightarrow> pyfloat \<Rightarrow> pyfloat \<Rightarrow> pyfloat \<Rightarrow> pyfloat \<Rightarrow> string" where
  "sign_totals env sub tax ship tot =
     sha256_hexdigest env (json_dumps_sorted env (totals_data sub tax ship tot))"


record order_totals =
  tot_subtotal :: pyfloat
  tot_tax_amount :: pyfloat
  tot_shipping_amount :: pyfloat
  tot_total_with_tax_shipping :: pyfloat
  tot_totals_signature :: string

definition calculate_totals :: "environment \<Rightarrow> pyfloat \<Rightarrow> order_totals" where
  "calculate_totals env amount =
     (let sub = amount;
          tax = float_mul sub TAX_RATE;
          ship = SHIPPING_COST;
          tot = float_add (float_add sub tax) ship
      in \<lparr>tot_subtotal = sub, tot_tax_amount = tax, tot_shipping_amount = ship,
          tot_total_with_tax_shipping = tot,
          tot_totals_signature = sign_totals env sub tax ship tot\<rparr>)"

text \<open>
  Step 3: the dictionary \<^verbatim>\<open>payment_data\<close> is built, and the payment is a mock: the
  \<^verbatim>\<open>try\<close> block assigns \<^verbatim>\<open>payment_success = True\<close> and a payment id made from the
  clock, and posts nothing.
\<close>

definition payment_data ::
  "PlaceOrderRequest \<Rightarrow> string \<Rightarrow> int \<Rightarrow> order_totals \<Rightarrow> payment_request" where
  "payment_data req key oid t =
     \<lparr>pay_order_id = oid, pay_amount = tot_total_with_tax_shipping t,
      pay_customer_id = req_customer_id req, pay_idempotency_key = ''payment_'' @ key\<rparr>"

definition process_payment :: "environment \<Rightarrow> payment_request \<Rightarrow> bool \<times> string" where
  "process_payment env pd = (True, ''pay_'' @ str_int (time_seconds env))"

text \<open>
  Step 4: the \<^verbatim>\<open>INSERT\<close> into \<^verbatim>\<open>Orders\<close> (writing statement 0), one \<^verbatim>\<open>INSERT\<close> into
  \<^verbatim>\<open>Order_Items\<close> for every entry of \<^verbatim>\<open>order_items\<close> (statements 1, 2, ...) and
  \<^verbatim>\<open>conn.commit()\<close> (the last one). The statements work on the transaction's copy of
  the tables; the result is the committed database, or \<open>None\<close> when a statement
  raised. \<^verbatim>\<open>db_utils.get_connection\<close> is not among the sources: the connection is
  taken to be one with autocommit off, as the calls of \<^verbatim>\<open>conn.commit()\<close> and
  \<^verbatim>\<open>conn.rollback()\<close> presuppose.
\<close>

definition new_order_row ::
  "environment \<Rightarrow> PlaceOrderRequest \<Rightarrow> string \<Rightarrow> int \<Rightarrow> order_totals \<Rightarrow> orders_row" where
  "new_order_row env req key oid t =
     \<lparr>order_id = oid, customer_id = req_customer_id req, order_status = ''CONFIRMED'',
      payment_status = ''PAID'', order_total = tot_total_with_tax_shipping t,
      subtotal = tot_subtotal t, tax_amount = tot_tax_amount t,
      shipping_amount = tot_shipping_amount t, totals_signature = tot_totals_signature t,
      idempotency_key = Some key, created_at = now_insert env\<rparr>"

definition new_item_row :: "int \<Rightarrow> order_item \<Rightarrow> order_items_row" where
  "new_item_row oid item =
     \<lparr>row_order_id = oid, row_product_id = item_product_id item, row_sku = item_sku item,
      row_quantity = item_quantity item, row_unit_price = item_unit_price item\<rparr>"

fun insert_order_items ::
  "environment \<Rightarrow> nat \<Rightarrow> int \<Rightarrow> order_item list \<Rightarrow> database \<Rightarrow> database option" where
  "insert_order_items env n oid [] work = Some work"
| "insert_order_items env n oid (item # rest) work =
     (if db_fault env = Some n then None
      else insert_order_items env (Suc n) oid rest
             (work\<lparr>Order_Items := Order_Items work @ [new_item_row oid item]\<rparr>))"

definition create_order_record ::
  "environment \<Rightarrow> database \<Rightarrow> orders_row \<Rightarrow> order_item list \<Rightarrow> database option" where
  "create_order_record env db row its =
     (if db_fault env = Some 0 then None
      else
        (case insert_order_items env 1 (order_id row) its (db\<lparr>Orders := Orders db @ [row]\<rparr>) of
           None \<Rightarrow> None
         | Some work \<Rightarrow> if db_fault env = Some (Suc (length its)) then None else Some work))"

text \<open>Steps 5 and 6: the notification and the shipment request, both best effort.\<close>

definition notification_post :: "PlaceOrderRequest \<Rightarrow> int \<Rightarrow> http_post" where
  "notification_post req oid =
     (NOTIFICATION_SERVICE_URL @ ''/notifications'',
      Notification_data ''ORDER_CONFIRMED'' (req_customer_id req) oid
        (''Your order #'' @ str_int oid @
         '' has been confirmed and payment processed successfully.''))"

definition shipment_post :: "PlaceOrderRequest \<Rightarrow> int \<Rightarrow> order_item list \<Rightarrow> http_post" where
  "shipment_post req oid its =
     (SHIPMENT_SERVICE_URL @ ''/shipments'', Shipment_data oid (req_customer_id req) its)"

text \<open>
  The part of \<^verbatim>\<open>place_order\<close> after the payment step, as a function of the values of
  \<^verbatim>\<open>payment_success\<close> and \<^verbatim>\<open>payment_id\<close>: the declined branch (release every entry of
  \<^verbatim>\<open>reservations\<close>, status 402), else the order record, the two best-effort posts and
  the success response.
\<close>

definition confirm_or_rollback ::
  "environment \<Rightarrow> database \<Rightarrow> PlaceOrderRequest \<Rightarrow> string \<Rightarrow> int \<Rightarrow> loop_state \<Rightarrow> order_totals
     \<Rightarrow> bool \<Rightarrow> string \<Rightarrow> place_order_response outcome" where
  "confirm_or_rollback env db req key oid st t payment_success payment_id =
     (if \<not> payment_success then
        (Inl (HTTPException 402 ''Payment was declined''), db,
         posts st @ release_all (reservations st))
      else
        (case create_order_record env db (new_order_row env req key oid t) (order_items st) of
           None \<Rightarrow> on_exception db (Raised_other (db_error env)) (reservations st) (posts st)
         | Some db' \<Rightarrow>
             (Inr (Order_placed ''Order placed successfully''
                \<lparr>resp_order_id = oid, resp_customer_id = req_customer_id req,
                 resp_order_status = ''CONFIRMED'', resp_payment_status = ''PAID'',
                 resp_subtotal = tot_subtotal t, resp_tax_amount = tot_tax_amount t,
                 resp_shipping_amount = tot_shipping_amount t,
                 resp_order_total = tot_total_with_tax_shipping t,
                 resp_payment_id = payment_id, resp_idempotency_key = key,
                 resp_created_at = now_response env, resp_items = order_items st\<rparr>),
              db',
              posts st @ [notification_post req oid, shipment_post req oid (order_items st)])))"

text \<open>
  \<^verbatim>\<open>place_order(order_request, idempotency_key)\<close>: the response or the \<^verbatim>\<open>HTTPException\<close>,
  the committed database afterwards, and the requests posted.
\<close>

definition place_order ::
  "environment \<Rightarrow> database \<Rightarrow> string option \<Rightarrow> PlaceOrderRequest
     \<Rightarrow> place_order_response outcome" where
  "place_order env db header req =
     (let key = effective_key env header req
      in case select_order_by_key db key of
           Some existing_order \<Rightarrow>
             (Inr (Order_already_exists ''Order already exists'' existing_order
                     (select_items db (order_id existing_order)) True),
              db, [])
         | None \<Rightarrow>
             (let oid = time_millis env mod 2147483647
              in case reserve_inventory env key oid 0 (items req) initial_state of
                   Inl (exn, st) \<Rightarrow> on_exception db exn (reservations st) (posts st)
                 | Inr st \<Rightarrow>
                     (let t = calculate_totals env (total_amount st);
                          pd = payment_data req key oid t;
                          (payment_success, payment_id) = process_payment env pd
                      in confirm_or_rollback env db req key oid st t
                           payment_success payment_id)))"

section \<open>cancel_order\<close>

definition select_order_by_id :: "database \<Rightarrow> int \<Rightarrow> orders_row option" where
  "select_order_by_id db oid = find (\<lambda>r. order_id r = oid) (Orders db)"

text \<open>
  The release loop of \<^verbatim>\<open>cancel_order\<close>: entered only if the order's idempotency key is
  neither \<^verbatim>\<open>NULL\<close> nor empty; one call for every row of \<^verbatim>\<open>Order_Items\<close> of the order.
\<close>

definition cancel_releases :: "database \<Rightarrow> orders_row \<Rightarrow> int \<Rightarrow> http_post list" where
  "cancel_releases db order oid =
     (if truthy (idempotency_key order) then
        map (\<lambda>item. (release_url,
                      Release_data
                        (the (idempotency_key order) @ ''_'' @ str_int (row_product_id item))
                        (str_int oid)))
          (select_items db oid)
      else [])"

text \<open>\<^verbatim>\<open>UPDATE Orders SET order_status = 'CANCELLED' WHERE order_id = %s\<close>.\<close>

definition update_cancelled :: "database \<Rightarrow> int \<Rightarrow> database" where
  "update_cancelled db oid =
     db\<lparr>Orders := map (\<lambda>r. if order_id r = oid then r\<lparr>order_status := ''CANCELLED''\<rparr> else r)
                     (Orders db)\<rparr>"

text \<open>
  \<^verbatim>\<open>cancel_order(order_id)\<close>. Its writing statements are the \<^verbatim>\<open>UPDATE\<close> (statement 0)
  and the commit (statement 1).
\<close>

definition cancel_order :: "environment \<Rightarrow> database \<Rightarrow> int \<Rightarrow> (string \<times> int) outcome" where
  "cancel_order env db oid =
     (case select_order_by_id db oid of
        None \<Rightarrow> (Inl (HTTPException 404 ''Order not found''), db, [])
      | Some order \<Rightarrow>
          if order_status order \<in> set [''CANCELLED'', ''SHIPPED'', ''DELIVERED''] then
            (Inl (HTTPException 400
                    (''Cannot cancel order with status: '' @ order_status order)),
             db, [])
          else
            (let ps = cancel_releases db order oid
             in if db_fault env = Some 0 \<or> db_fault env = Some 1 then
                  (Inl (HTTPException 500 (db_error env)), db, ps)
                else
                  (Inr (''Order cancelled successfully'', oid), update_cancelled db oid, ps)))"

section \<open>Notions used in the statements\<close>

text \<open>
  An item is granted at position \<open>i\<close> when the reserve call for it returns status 200 with
  a body that parses, and its quantity converts to a float, so that the loop goes on to
  the next item.
\<close>

definition granted :: "environment \<Rightarrow> string \<Rightarrow> int \<Rightarrow> nat \<Rightarrow> OrderItem \<Rightarrow> bool" where
  "granted env key oid i item =
     ((case reserve_response env i (reservation_data key oid item) of
         Response status_code text json \<Rightarrow> status_code = 200 \<and> json = None
       | RequestException e \<Rightarrow> False) \<and>
      float_of_int (quantity item) \<noteq> None)"

definition reserve_post :: "string \<Rightarrow> int \<Rightarrow> OrderItem \<Rightarrow> http_post" where
  "reserve_post key oid item = (reserve_url, reservation_data key oid item)"

definition reservation_of :: "string \<Rightarrow> int \<Rightarrow> OrderItem \<Rightarrow> reservation" where
  "reservation_of key oid item = (key @ ''_'' @ str_int (product_id item), str_int oid)"

definition release_post :: "string \<Rightarrow> int \<Rightarrow> OrderItem \<Rightarrow> http_post" where
  "release_post key oid item =
     (release_url, Release_data (key @ ''_'' @ str_int (product_id item)) (str_int oid))"

definition order_item_of :: "OrderItem \<Rightarrow> order_item" where
  "order_item_of item =
     \<lparr>item_product_id = product_id item, item_sku = sku item,
      item_quantity = quantity item, item_unit_price = unit_price\<rparr>"

definition add_amount :: "pyfloat \<Rightarrow> OrderItem \<Rightarrow> pyfloat" where
  "add_amount acc item =
     float_add acc (float_mul unit_price (round_binary64 (quantity item) 0))"

definition after_granted :: "string \<Rightarrow> int \<Rightarrow> OrderItem list \<Rightarrow> loop_state \<Rightarrow> loop_state" where
  "after_granted key oid its st =
     st\<lparr>reservations := reservations st @ map (reservation_of key oid) its,
        order_items := order_items st @ map order_item_of its,
        total_amount := foldl add_amount (total_amount st) its,
        posts := posts st @ map (reserve_post key oid) its\<rparr>"

text \<open>
  The success response and the committed database of a request whose reservation loop
  ended in state \<open>st\<close>.
\<close>

definition placed_response ::
  "environment \<Rightarrow> PlaceOrderRequest \<Rightarrow> string \<Rightarrow> int \<Rightarrow> loop_state \<Rightarrow> placed_order" where
  "placed_response env req key oid st =
     (let t = calculate_totals env (total_amount st)
      in \<lparr>resp_order_id = oid, resp_customer_id = req_customer_id req,
          resp_order_status = ''CONFIRMED'', resp_payment_status = ''PAID'',
          resp_subtotal = tot_subtotal t, resp_tax_amount = tot_tax_amount t,
          resp_shipping_amount = tot_shipping_amount t,
          resp_order_total = tot_total_with_tax_shipping t,
          resp_payment_id = ''pay_'' @ str_int (time_seconds env),
          resp_idempotency_key = key,
          resp_created_at = now_response env, resp_items = order_items st\<rparr>)"

definition committed ::
  "environment \<Rightarrow> database \<Rightarrow> PlaceOrderRequest \<Rightarrow> string \<Rightarrow> int \<Rightarrow> loop_state \<Rightarrow> database" where
  "committed env db req key oid st =
     db\<lparr>Orders := Orders db @
            [new_order_row env req key oid (calculate_totals env (total_amount st))],
        Order_Items := Order_Items db @ map (new_item_row oid) (order_items st)\<rparr>"

text \<open>
  The amount of an order line and the sum of the amounts of a list of lines, in float
  arithmetic, from left to right; the order dictionary of a success response.
\<close>

definition line_amount :: "order_item \<Rightarrow> pyfloat" where
  "line_amount l = float_mul (item_unit_price l) (round_binary64 (item_quantity l) 0)"

definition sum_line_amounts :: "order_item list \<Rightarrow> pyfloat" where
  "sum_line_amounts ls = foldl (\<lambda>acc l. float_add acc (line_amount l)) (Finite 0 0) ls"

definition placed_of :: "place_order_response outcome \<Rightarrow> placed_order option" where
  "placed_of out = (case fst out of Inr (Order_placed msg po) \<Rightarrow> Some po | _ \<Rightarrow> None)"

text \<open>
  A posted request goes to the payment service when its URL begins with
  \<^verbatim>\<open>PAYMENT_SERVICE_URL\<close>; the URLs the service posts to.
\<close>

definition to_payment_service :: "http_post \<Rightarrow> bool" where
  "to_payment_service p = (take (length PAYMENT_SERVICE_URL) (fst p) = PAYMENT_SERVICE_URL)"

definition service_urls :: "string set" where
  "service_urls =
     {reserve_url, release_url, NOTIFICATION_SERVICE_URL @ ''/notifications'',
      SHIPMENT_SERVICE_URL @ ''/shipments''}"

text \<open>
  The canonical encoding of the four totals as the claim describes it (keys in sorted
  order), the signature recomputed from the stored fields of a row of \<^verbatim>\<open>Orders\<close>, and
  the rows whose stored signature equals the recomputed one.
\<close>

definition canonical_encoding ::
  "environment \<Rightarrow> pyfloat \<Rightarrow> pyfloat \<Rightarrow> pyfloat \<Rightarrow> pyfloat \<Rightarrow> string" where
  "canonical_encoding env sub tax ship tot =
     ''{'' @ [CHR 0x22] @ ''shipping'' @ [CHR 0x22] @ '': '' @ json_float env ship @ '', '' @
     [CHR 0x22] @ ''subtotal'' @ [CHR 0x22] @ '': '' @ json_float env sub @ '', '' @
     [CHR 0x22] @ ''tax'' @ [CHR 0x22] @ '': '' @ json_float env tax @ '', '' @
     [CHR 0x22] @ ''total'' @ [CHR 0x22] @ '': '' @ json_float env tot @ ''}''"

definition recompute_signature :: "environment \<Rightarrow> orders_row \<Rightarrow> string" where
  "recompute_signature env r =
     sha256_hexdigest env
       (canonical_encoding env (subtotal r) (tax_amount r) (shipping_amount r) (order_total r))"

definition signature_valid :: "environment \<Rightarrow> orders_row \<Rightarrow> bool" where
  "signature_valid env r = (totals_signature r = recompute_signature env r)"

section \<open>Example data\<close>

text \<open>Concrete environments, requests and stores on which the theorems below are run.\<close>

definition example_env :: environment where
  "example_env =
     \<lparr>uuid4 = ''6f1c'', reserve_response = (\<lambda>i d. Response 200 ''ok'' None),
      time_millis = 1700000000123, time_seconds = 1700000000,
      now_insert = ''t0'', now_response = ''t1'',
      db_fault = None, db_error = [], sha256_hexdigest = (\<lambda>s. ''#'' @ s),
      json_float = (\<lambda>x. ''f''), charge_response = (\<lambda>pd. Approved)\<rparr>"

definition example_request :: PlaceOrderRequest where
  "example_request =
     \<lparr>req_customer_id = 7,
      items = [\<lparr>product_id = 1, sku = ''LAPTOP001'', quantity = 2\<rparr>,
               \<lparr>product_id = 2, sku = ''MOUSE001'', quantity = 1\<rparr>],
      req_idempotency_key = Some ''k1''\<rparr>"

definition stored_order :: orders_row where
  "stored_order =
     \<lparr>order_id = 41, customer_id = 7, order_status = ''CONFIRMED'', payment_status = ''PAID'',
      order_total = Finite 0 0, subtotal = Finite 0 0, tax_amount = Finite 0 0,
      shipping_amount = Finite 0 0, totals_signature = ''s'',
      idempotency_key = Some ''k1'', created_at = ''t''\<rparr>"

definition stored_db :: database where
  "stored_db =
     \<lparr>Orders = [stored_order],
      Order_Items = [\<lparr>row_order_id = 41, row_product_id = 9, row_sku = ''PEN'',
                      row_quantity = 3, row_unit_price = Finite 1 0\<rparr>,
                     \<lparr>row_order_id = 42, row_product_id = 5, row_sku = ''INK'',
                      row_quantity = 1, row_unit_price = Finite 1 0\<rparr>]\<rparr>"

definition denying_env :: environment where
  "denying_env =
     example_env\<lparr>reserve_response :=
       (\<lambda>i d. if i = 0 then Response 200 ''ok'' None
              else Response 409 ''insufficient stock'' None)\<rparr>"

definition three_items_request :: PlaceOrderRequest where
  "three_items_request =
     \<lparr>req_customer_id = 7,
      items = [\<lparr>product_id = 1, sku = ''LAPTOP001'', quantity = 2\<rparr>,
               \<lparr>product_id = 2, sku = ''MOUSE001'', quantity = 1\<rparr>,
               \<lparr>product_id = 3, sku = ''CABLE001'', quantity = 5\<rparr>],
      req_idempotency_key = Some ''k2''\<rparr>"

definition empty_db :: database where
  "empty_db = \<lparr>Orders = [], Order_Items = []\<rparr>"


definition erroring_env :: environment where
  "erroring_env =
     example_env\<lparr>reserve_response :=
       (\<lambda>i d. if i = 0 then Response 200 ''ok'' None
              else Response 503 ''Service Unavailable'' None)\<rparr>"

definition declining_env :: environment where
  "declining_env = example_env\<lparr>charge_response := (\<lambda>pd. Declined)\<rparr>"

definition shipped_db :: database where
  "shipped_db =
     \<lparr>Orders = [stored_order\<lparr>order_status := ''SHIPPED''\<rparr>],
      Order_Items = [\<lparr>row_order_id = 41, row_product_id = 9, row_sku = ''PEN'',
                      row_quantity = 3, row_unit_price = Finite 1 0\<rparr>]\<rparr>"

definition keyless_db :: database where
  "keyless_db =
     \<lparr>Orders = [stored_order\<lparr>idempotency_key := None\<rparr>],
      Order_Items = [\<lparr>row_order_id = 41, row_product_id = 9, row_sku = ''PEN'',
                      row_quantity = 3, row_unit_price = Finite 1 0\<rparr>]\<rparr>"

definition failing_update_env :: environment where
  "failing_update_env = example_env\<lparr>db_fault := Some 0, db_error := ''Lost connection''\<rparr>"

definition empty_request :: PlaceOrderRequest where
  "empty_request = \<lparr>req_customer_id = 7, items = [], req_idempotency_key = Some ''k0''\<rparr>"

definition negative_request :: PlaceOrderRequest where
  "negative_request =
     \<lparr>req_customer_id = 7,
      items = [\<lparr>product_id = 4, sku = ''DESK001'', quantity = - 1\<rparr>],
      req_idempotency_key = Some ''k4''\<rparr>"


definition example_repr :: "pyfloat \<Rightarrow> string" where
  "example_repr x =
     (if x = float_literal 8997 100 then ''89.97''
      else if x = float_literal 44985 10000 then ''4.4985''
      else if x = float_literal 1000 100 then ''10.0''
      else if x = float_literal 1044685 10000 then ''104.4685''
      else ''0.0'')"

definition printing_env :: environment where
  "printing_env = example_env\<lparr>json_float := example_repr\<rparr>"

definition signed_db :: database where
  "signed_db =
     \<lparr>Orders =
        [\<lparr>order_id = 41, customer_id = 7, order_status = ''CONFIRMED'',
          payment_status = ''PAID'', order_total = float_literal 1000 100,
          subtotal = Finite 0 0, tax_amount = Finite 0 0,
          shipping_amount = float_literal 1000 100,
          totals_signature =
            ''#{'' @ [CHR 0x22] @ ''shipping'' @ [CHR 0x22] @ '': 10.0, '' @
            [CHR 0x22] @ ''subtotal'' @ [CHR 0x22] @ '': 0.0, '' @
            [CHR 0x22] @ ''tax'' @ [CHR 0x22] @ '': 0.0, '' @
            [CHR 0x22] @ ''total'' @ [CHR 0x22] @ '': 10.0}'',
          idempotency_key = Some ''k9'', created_at = ''t''\<rparr>],
      Order_Items = []\<rparr>"

section \<open>Evaluation and list lemmas\<close>

lemma bit_length_numeral [simp]:
  "bit_length (numeral n) = bit_length (numeral n div 2) + 1"
  by (subst bit_length.simps) simp

lemma bit_length_0 [simp]: "bit_length 0 = 0"
  by (subst bit_length.simps) simp

lemma bit_length_1 [simp]: "bit_length 1 = 1"
  by (subst bit_length.simps) simp

lemma str_digits_numeral [simp]:
  "str_digits (numeral n) =
     (if numeral n < (10::int) then [''0123456789'' ! nat (numeral n)]
      else str_digits (numeral n div 10) @ [''0123456789'' ! nat (numeral n mod 10)])"
  by (rule str_digits.simps)

lemma str_digits_0 [simp]: "str_digits 0 = ''0''"
  by (subst str_digits.simps) simp

lemma str_digits_1 [simp]: "str_digits 1 = ''1''"
  by (subst str_digits.simps) simp

lemma find_Some_mem: "find P xs = Some x \<Longrightarrow> x \<in> set xs \<and> P x"
  by (induction xs) (auto split: if_splits)

lemma find_None_iff_none: "(find P xs = None) = (\<forall>x\<in>set xs. \<not> P x)"
  by (induction xs) auto

lemma float_of_int_Some: "float_of_int n = Some q \<Longrightarrow> q = round_binary64 n 0"
  by (auto simp: float_of_int_def split: pyfloat.splits)

lemma after_granted_Nil [simp]: "after_granted key oid [] st = st"
  by (simp add: after_granted_def)

lemma release_all_reservations:
  "release_all (map (reservation_of key oid) its) = map (release_post key oid) its"
  by (simp add: release_all_def reservation_of_def release_post_def)

lemma reserve_inventory_granted:
  assumes "granted env key oid i item"
  shows "reserve_inventory env key oid i (item # rest) st =
         reserve_inventory env key oid (Suc i) rest (after_granted key oid [item] st)"
proof -
  from assms obtain body
    where r: "reserve_response env i (reservation_data key oid item) = Response 200 body None"
    by (auto simp: granted_def split: post_result.splits)
  from assms obtain q where q: "float_of_int (quantity item) = Some q"
    by (auto simp: granted_def)
  show ?thesis
    using r q float_of_int_Some [OF q]
    by (cases st) (simp add: after_granted_def reservation_of_def order_item_of_def add_amount_def
        reserve_post_def)
qed

lemma after_granted_Cons:
  "after_granted key oid (item # its) st =
   after_granted key oid its (after_granted key oid [item] st)"
  by (cases st) (simp add: after_granted_def)

lemma reserve_inventory_prefix:
  assumes "\<forall>j<length pre. granted env key oid (i + j) (pre ! j)"
  shows "reserve_inventory env key oid i (pre @ rest) st =
         reserve_inventory env key oid (i + length pre) rest (after_granted key oid pre st)"
  using assms
proof (induction pre arbitrary: i st)
  case Nil
  show ?case by simp
next
  case (Cons item pre)
  from Cons.prems have g: "granted env key oid i item"
    by force
  from Cons.prems have rest: "\<forall>j<length pre. granted env key oid (Suc i + j) (pre ! j)"
    by force
  show ?case
    using Cons.IH [OF rest] g
    by (simp add: reserve_inventory_granted after_granted_Cons [of key oid item pre]
        del: reserve_inventory.simps)
qed

lemma reserve_inventory_Inr:
  "reserve_inventory env key oid i its st = Inr st' \<Longrightarrow>
     (\<forall>j<length its. granted env key oid (i + j) (its ! j)) \<and>
     st' = after_granted key oid its st"
proof (induction its arbitrary: i st)
  case Nil
  then show ?case by simp
next
  case (Cons item its)
  have g: "granted env key oid i item"
    using Cons.prems
    by (auto simp: granted_def unavailable_def Let_def
        split: post_result.splits if_splits option.splits)
  with Cons.prems
  have "reserve_inventory env key oid (Suc i) its (after_granted key oid [item] st) = Inr st'"
    by (simp add: reserve_inventory_granted del: reserve_inventory.simps)
  from Cons.IH [OF this]
  have rest: "\<forall>j<length its. granted env key oid (Suc i + j) (its ! j)"
    and st': "st' = after_granted key oid its (after_granted key oid [item] st)"
    by simp_all
  have "\<forall>j<length (item # its). granted env key oid (i + j) ((item # its) ! j)"
  proof (intro allI impI)
    fix j
    assume "j < length (item # its)"
    then show "granted env key oid (i + j) ((item # its) ! j)"
      using g rest by (cases j) auto
  qed
  with st' show ?case
    by (simp add: after_granted_Cons [of key oid item its])
qed

lemma insert_order_items_Some:
  "insert_order_items env n oid its work = Some w \<Longrightarrow>
     w = work\<lparr>Order_Items := Order_Items work @ map (new_item_row oid) its\<rparr>"
proof (induction its arbitrary: n work)
  case Nil
  then show ?case by simp
next
  case (Cons item its)
  from Cons.prems
  have "insert_order_items env (Suc n) oid its
          (work\<lparr>Order_Items := Order_Items work @ [new_item_row oid item]\<rparr>) = Some w"
    by (simp split: if_splits)
  from Cons.IH [OF this] show ?case
    by simp
qed

lemma insert_order_items_no_fault:
  "db_fault env = None \<Longrightarrow>
     insert_order_items env n oid its work =
       Some (work\<lparr>Order_Items := Order_Items work @ map (new_item_row oid) its\<rparr>)"
  by (induction its arbitrary: n work) auto

lemma create_order_record_Some:
  "create_order_record env db row its = Some db' \<Longrightarrow>
     db' = db\<lparr>Orders := Orders db @ [row],
              Order_Items := Order_Items db @ map (new_item_row (order_id row)) its\<rparr>"
  by (auto simp: create_order_record_def split: if_splits option.splits
      dest!: insert_order_items_Some)

lemma create_order_record_no_fault:
  "db_fault env = None \<Longrightarrow>
     create_order_record env db row its =
       Some (db\<lparr>Orders := Orders db @ [row],
                Order_Items := Order_Items db @ map (new_item_row (order_id row)) its\<rparr>)"
  by (simp add: create_order_record_def insert_order_items_no_fault)

lemma process_payment_approves: "fst (process_payment env pd) = True"
  by (simp add: process_payment_def)

lemma example_items_granted:
  "\<forall>j<length (items example_request).
      granted example_env ''k1'' 1340435346 (0 + j) (items example_request ! j)"
  by (simp add: example_request_def granted_def example_env_def float_of_int_def
      round_binary64_def Let_def less_Suc_eq)

lemma example_reservation_phase:
  "reserve_inventory example_env ''k1'' 1340435346 0 (items example_request) initial_state =
     Inr (after_granted ''k1'' 1340435346 (items example_request) initial_state)"
  using reserve_inventory_prefix [OF example_items_granted, of "[]" initial_state]
  by simp

lemma place_order_cases:
  "place_order env db header req =
     (let key = effective_key env header req; oid = time_millis env mod 2147483647
      in case select_order_by_key db key of
           Some existing_order \<Rightarrow>
             (Inr (Order_already_exists ''Order already exists'' existing_order
                     (select_items db (order_id existing_order)) True), db, [])
         | None \<Rightarrow>
             (case reserve_inventory env key oid 0 (items req) initial_state of
                Inl (exn, st) \<Rightarrow> on_exception db exn (reservations st) (posts st)
              | Inr st \<Rightarrow>
                  confirm_or_rollback env db req key oid st
                    (calculate_totals env (total_amount st)) True
                    (''pay_'' @ str_int (time_seconds env))))"
  by (simp add: place_order_def process_payment_def Let_def
      split: option.splits sum.splits prod.splits)

lemma on_exception_fails: "\<exists>e. on_exception db exn rs ps = (Inl e, db, ps @ (case exn of Raised_HTTP _ \<Rightarrow> [] | Raised_other _ \<Rightarrow> release_all rs))"
  by (cases exn) (simp_all add: on_exception_def)

lemma on_exception_db: "fst (snd (on_exception db exn rs ps)) = db"
  by (cases exn) (simp_all add: on_exception_def)

lemma on_exception_not_Inr: "fst (on_exception db exn rs ps) \<noteq> Inr x"
  by (cases exn) (simp_all add: on_exception_def)

lemma confirm_or_rollback_cases:
  "(\<exists>e ps. confirm_or_rollback env db req key oid st t ok pid = (Inl e, db, ps)) \<or>
   (ok \<and> confirm_or_rollback env db req key oid st t ok pid =
      (Inr (Order_placed ''Order placed successfully''
              \<lparr>resp_order_id = oid, resp_customer_id = req_customer_id req,
               resp_order_status = ''CONFIRMED'', resp_payment_status = ''PAID'',
               resp_subtotal = tot_subtotal t, resp_tax_amount = tot_tax_amount t,
               resp_shipping_amount = tot_shipping_amount t,
               resp_order_total = tot_total_with_tax_shipping t,
               resp_payment_id = pid, resp_idempotency_key = key,
               resp_created_at = now_response env, resp_items = order_items st\<rparr>),
       db\<lparr>Orders := Orders db @ [new_order_row env req key oid t],
          Order_Items := Order_Items db @ map (new_item_row oid) (order_items st)\<rparr>,
       posts st @ [notification_post req oid, shipment_post req oid (order_items st)]))"
proof (cases "ok \<and> create_order_record env db (new_order_row env req key oid t) (order_items st) \<noteq> None")
  case True
  then obtain db' where c: "create_order_record env db (new_order_row env req key oid t) (order_items st) = Some db'"
    by auto
  from create_order_record_Some [OF c] c True show ?thesis
    by (simp add: confirm_or_rollback_def new_order_row_def)
next
  case False
  then show ?thesis
    by (auto simp: confirm_or_rollback_def on_exception_def)
qed

lemma place_order_placed:
  assumes "fst (place_order env db header req) = Inr (Order_placed msg po)"
  shows "select_order_by_key db (effective_key env header req) = None \<and>
         (\<forall>j<length (items req).
             granted env (effective_key env header req) (time_millis env mod 2147483647) j
               (items req ! j)) \<and>
         place_order env db header req =
           (let key = effective_key env header req;
                oid = time_millis env mod 2147483647;
                st = after_granted key oid (items req) initial_state
            in (Inr (Order_placed ''Order placed successfully''
                       (placed_response env req key oid st)),
                committed env db req key oid st,
                posts st @ [notification_post req oid, shipment_post req oid (order_items st)]))"
proof -
  let ?key = "effective_key env header req"
  let ?oid = "time_millis env mod 2147483647"
  let ?loop = "reserve_inventory env ?key ?oid 0 (items req) initial_state"
  from assms have fresh: "select_order_by_key db ?key = None"
    by (auto simp: place_order_cases Let_def split: option.splits)
  from assms fresh obtain st where st: "?loop = Inr st"
    by (cases ?loop) (auto simp: place_order_cases Let_def on_exception_not_Inr split: prod.splits)
  note loop = reserve_inventory_Inr [OF st]
  from assms fresh st
  have ok: "fst (confirm_or_rollback env db req ?key ?oid st
              (calculate_totals env (total_amount st)) True
              (''pay_'' @ str_int (time_seconds env))) = Inr (Order_placed msg po)"
    by (simp add: place_order_cases Let_def)
  with confirm_or_rollback_cases [of env db req ?key ?oid st
      "calculate_totals env (total_amount st)" True "''pay_'' @ str_int (time_seconds env)"]
  have "confirm_or_rollback env db req ?key ?oid st
          (calculate_totals env (total_amount st)) True
          (''pay_'' @ str_int (time_seconds env)) =
        (Inr (Order_placed ''Order placed successfully'' (placed_response env req ?key ?oid st)),
         committed env db req ?key ?oid st,
         posts st @ [notification_post req ?oid, shipment_post req ?oid (order_items st)])"
    by (auto simp: placed_response_def committed_def Let_def)
  with fresh st loop show ?thesis
    by (simp add: place_order_cases Let_def)
qed

lemma place_order_not_placed:
  assumes "\<forall>msg po. fst (place_order env db header req) \<noteq> Inr (Order_placed msg po)"
  shows "fst (snd (place_order env db header req)) = db"
proof -
  let ?key = "effective_key env header req"
  let ?oid = "time_millis env mod 2147483647"
  let ?loop = "reserve_inventory env ?key ?oid 0 (items req) initial_state"
  show ?thesis
  proof (cases "select_order_by_key db ?key")
    case (Some existing)
    then show ?thesis
      by (simp add: place_order_cases)
  next
    case None
    show ?thesis
    proof (cases ?loop)
      case (Inl failure)
      with None show ?thesis
        by (cases failure) (simp add: place_order_cases Let_def on_exception_db)
    next
      case (Inr st)
      with None assms confirm_or_rollback_cases [of env db req ?key ?oid st
          "calculate_totals env (total_amount st)" True "''pay_'' @ str_int (time_seconds env)"]
      show ?thesis
        by (auto simp: place_order_cases Let_def)
    qed
  qed
qed

lemma place_order_succeeds:
  assumes "select_order_by_key db (effective_key env header req) = None"
    and "\<forall>j<length (items req).
           granted env (effective_key env header req) (time_millis env mod 2147483647) j
             (items req ! j)"
    and "db_fault env = None"
  shows "place_order env db header req =
           (let key = effective_key env header req;
                oid = time_millis env mod 2147483647;
                st = after_granted key oid (items req) initial_state
            in (Inr (Order_placed ''Order placed successfully''
                       (placed_response env req key oid st)),
                committed env db req key oid st,
                posts st @ [notification_post req oid, shipment_post req oid (order_items st)]))"
proof -
  let ?key = "effective_key env header req"
  let ?oid = "time_millis env mod 2147483647"
  have "reserve_inventory env ?key ?oid 0 (items req) initial_state =
          Inr (after_granted ?key ?oid (items req) initial_state)"
    using reserve_inventory_prefix [of "items req" env ?key ?oid 0 "[]" initial_state] assms(2)
    by simp
  with assms(1,3) show ?thesis
    by (simp add: place_order_cases Let_def confirm_or_rollback_def
        create_order_record_no_fault placed_response_def committed_def new_order_row_def)
qed

lemma example_fresh: "select_order_by_key empty_db k = None"
  by (simp add: select_order_by_key_def empty_db_def)

lemma example_key: "effective_key example_env None example_request = ''k1''"
  by (simp add: effective_key_def example_request_def)

lemma example_oid: "time_millis example_env mod 2147483647 = 1340435346"
  by (simp add: example_env_def)

lemma example_place_order:
  "place_order example_env empty_db None example_request =
     (let st = after_granted ''k1'' 1340435346 (items example_request) initial_state
      in (Inr (Order_placed ''Order placed successfully''
                 (placed_response example_env example_request ''k1'' 1340435346 st)),
          committed example_env empty_db example_request ''k1'' 1340435346 st,
          posts st @ [notification_post example_request 1340435346,
                      shipment_post example_request 1340435346 (order_items st)]))"
proof -
  have f: "db_fault example_env = None"
    by (simp add: example_env_def)
  have g: "\<forall>j<length (items example_request).
             granted example_env (effective_key example_env None example_request)
               (time_millis example_env mod 2147483647) j (items example_request ! j)"
    using example_items_granted by (simp add: example_key example_oid)
  from place_order_succeeds [OF example_fresh g f] show ?thesis
    by (simp add: example_key example_oid Let_def)
qed





lemmas float_eval =
  float_literal_def round_binary64_def float_add_def float_mul_def float_of_int_def Let_def

lemma unit_price_value: "unit_price = Finite 8441434551552573 (- 48)"
  by (simp add: unit_price_def float_eval)

lemma TAX_RATE_value: "TAX_RATE = Finite 7205759403792794 (- 57)"
  by (simp add: TAX_RATE_def float_eval)

lemma SHIPPING_COST_value: "SHIPPING_COST = Finite 5629499534213120 (- 49)"
  by (simp add: SHIPPING_COST_def float_eval)

lemma literal_89_97: "float_literal 8997 100 = Finite 6331075913664430 (- 46)"
  by (simp add: float_eval)

lemma literal_4_4985: "float_literal 44985 10000 = Finite 5064860730931544 (- 50)"
  by (simp add: float_eval)

lemma literal_104_4685: "float_literal 1044685 10000 = Finite 7351317151124292 (- 46)"
  by (simp add: float_eval)

lemma foldl_add_amount:
  "foldl add_amount acc its =
     foldl (\<lambda>acc l. float_add acc (line_amount l)) acc (map order_item_of its)"
  by (induction its arbitrary: acc)
    (simp_all add: add_amount_def line_amount_def order_item_of_def)

lemma total_amount_after_granted:
  "total_amount (after_granted key oid its initial_state) =
     sum_line_amounts (order_items (after_granted key oid its initial_state))"
  by (simp add: after_granted_def initial_state_def sum_line_amounts_def foldl_add_amount)

lemma example_subtotal:
  "sum_line_amounts
     [\<lparr>item_product_id = 1, item_sku = ''LAPTOP001'', item_quantity = 2,
       item_unit_price = unit_price\<rparr>,
      \<lparr>item_product_id = 2, item_sku = ''MOUSE001'', item_quantity = 1,
       item_unit_price = unit_price\<rparr>] = Finite 6331075913664430 (- 46)"
  by (simp add: sum_line_amounts_def line_amount_def unit_price_value float_eval)

lemma example_tax:
  "float_mul (Finite 6331075913664430 (- 46)) (float_literal 5 100) =
     Finite 5064860730931544 (- 50)"
  by (simp add: float_eval)

lemma example_total:
  "float_add (float_add (Finite 6331075913664430 (- 46)) (Finite 5064860730931544 (- 50)))
     (float_literal 1000 100) = Finite 7351317151124292 (- 46)"
  by (simp add: float_eval)

lemma example_items:
  "order_items (after_granted key oid (items example_request) initial_state) =
     [\<lparr>item_product_id = 1, item_sku = ''LAPTOP001'', item_quantity = 2,
       item_unit_price = unit_price\<rparr>,
      \<lparr>item_product_id = 2, item_sku = ''MOUSE001'', item_quantity = 1,
       item_unit_price = unit_price\<rparr>]"
  by (simp add: after_granted_def initial_state_def example_request_def order_item_of_def)

lemma reservation_failure_outcome:
  assumes key: "key = effective_key env header req"
    and oid: "oid = time_millis env mod 2147483647"
    and fresh: "select_order_by_key db key = None"
    and its: "items req = pre @ item # rest"
    and pre: "\<forall>j<length pre. granted env key oid j (pre ! j)"
  shows "(\<forall>sc body js.
            reserve_response env (length pre) (reservation_data key oid item) =
              Response sc body js \<and> sc \<noteq> 200 \<longrightarrow>
            place_order env db header req =
              (Inl (HTTPException 409
                      (''Failed to reserve inventory for product '' @
                       str_int (product_id item) @ '': '' @ body)),
               db,
               map (reserve_post key oid) (pre @ [item]) @ map (release_post key oid) pre)) \<and>
         (\<forall>e. reserve_response env (length pre) (reservation_data key oid item) =
                RequestException e \<longrightarrow>
            place_order env db header req =
              (Inl (HTTPException 503 (''Inventory service unavailable: '' @ e)),
               db,
               map (reserve_post key oid) (pre @ [item]) @ map (release_post key oid) pre)) \<and>
         (\<forall>body e. reserve_response env (length pre) (reservation_data key oid item) =
                Response 200 body (Some e) \<longrightarrow>
            place_order env db header req =
              (Inl (HTTPException 503 (''Inventory service unavailable: '' @ e)),
               db,
               map (reserve_post key oid) (pre @ [item]) @ map (release_post key oid) pre))"
proof -
  let ?st = "after_granted key oid pre initial_state"
  have loop: "reserve_inventory env key oid 0 (items req) initial_state =
              reserve_inventory env key oid (length pre) (item # rest) ?st"
    using reserve_inventory_prefix [of pre env key oid 0 "item # rest" initial_state] pre its
    by simp
  have res: "reservations ?st = map (reservation_of key oid) pre"
    and ps: "posts ?st = map (reserve_post key oid) pre"
    by (simp_all add: after_granted_def initial_state_def)
  have po: "place_order env db header req =
            (case reserve_inventory env key oid (length pre) (item # rest) ?st of
               Inl (exn, st) \<Rightarrow> on_exception db exn (reservations st) (posts st)
             | Inr st \<Rightarrow>
                 (let t = calculate_totals env (total_amount st);
                      pd = payment_data req key oid t;
                      (payment_success, payment_id) = process_payment env pd
                  in confirm_or_rollback env db req key oid st t payment_success payment_id))"
    using fresh loop by (simp add: place_order_def key [symmetric] oid [symmetric])
  show ?thesis
    by (simp add: po res ps on_exception_def unavailable_def release_all_reservations
        reserve_post_def)
qed

lemma reserve_inventory_charge_response:
  "reserve_inventory (env\<lparr>charge_response := c\<rparr>) key oid i its st =
   reserve_inventory env key oid i its st"
  by (induction its arbitrary: i st)
    (auto simp: Let_def split: post_result.splits option.splits)

lemma insert_order_items_charge_response:
  "insert_order_items (env\<lparr>charge_response := c\<rparr>) n oid its work =
   insert_order_items env n oid its work"
  by (induction its arbitrary: n work) auto

lemma create_order_record_charge_response:
  "create_order_record (env\<lparr>charge_response := c\<rparr>) db row its =
   create_order_record env db row its"
  by (simp add: create_order_record_def insert_order_items_charge_response
      split: option.splits)

lemma calculate_totals_charge_response:
  "calculate_totals (env\<lparr>charge_response := c\<rparr>) amount = calculate_totals env amount"
  by (simp add: calculate_totals_def sign_totals_def json_dumps_sorted_def)

lemma new_order_row_charge_response:
  "new_order_row (env\<lparr>charge_response := c\<rparr>) req key oid t = new_order_row env req key oid t"
  by (simp add: new_order_row_def)

lemma confirm_or_rollback_charge_response:
  "confirm_or_rollback (env\<lparr>charge_response := c\<rparr>) db req key oid st t ok pid =
   confirm_or_rollback env db req key oid st t ok pid"
  by (simp add: confirm_or_rollback_def create_order_record_charge_response
      new_order_row_charge_response split: option.splits)

lemma place_order_charge_response:
  "place_order (env\<lparr>charge_response := c\<rparr>) db header req = place_order env db header req"
proof -
  have e: "effective_key (env\<lparr>charge_response := c\<rparr>) header req = effective_key env header req"
    by (simp add: effective_key_def)
  show ?thesis
    by (simp add: place_order_cases e Let_def reserve_inventory_charge_response
        calculate_totals_charge_response confirm_or_rollback_charge_response
        split: option.splits sum.splits prod.splits)
qed

lemma reserve_inventory_failure_status:
  "reserve_inventory env key oid i its st = Inl (Raised_HTTP (HTTPException sc d), st') \<Longrightarrow>
     sc = 409 \<or> sc = 503"
  by (induction its arbitrary: i st)
    (auto simp: Let_def unavailable_def split: post_result.splits option.splits if_splits)

lemma place_order_failure_status:
  assumes "fst (place_order env db header req) = Inl (HTTPException sc d)"
  shows "sc = 409 \<or> sc = 503 \<or> sc = 500"
proof -
  let ?key = "effective_key env header req"
  let ?oid = "time_millis env mod 2147483647"
  let ?loop = "reserve_inventory env ?key ?oid 0 (items req) initial_state"
  from assms have fresh: "select_order_by_key db ?key = None"
    by (auto simp: place_order_cases Let_def split: option.splits)
  show ?thesis
  proof (cases ?loop)
    case (Inl failure)
    obtain exn st where f: "failure = (exn, st)"
      by (cases failure)
    show ?thesis
    proof (cases exn)
      case (Raised_HTTP e)
      with assms fresh Inl f have "e = HTTPException sc d"
        by (simp add: place_order_cases Let_def on_exception_def)
      with Inl f Raised_HTTP reserve_inventory_failure_status [of env ?key ?oid 0 "items req"
          initial_state sc d st]
      show ?thesis by auto
    next
      case (Raised_other msg)
      with assms fresh Inl f show ?thesis
        by (simp add: place_order_cases Let_def on_exception_def)
    qed
  next
    case (Inr st)
    with assms fresh show ?thesis
      by (auto simp: place_order_cases Let_def confirm_or_rollback_def on_exception_def
          split: option.splits)
  qed
qed



lemma declined_branch_outcome:
  assumes "reserve_inventory env key oid 0 its initial_state = Inr st"
  shows "confirm_or_rollback env db req key oid st t False payment_id =
           (Inl (HTTPException 402 ''Payment was declined''), db,
            map (reserve_post key oid) its @ map (release_post key oid) its)"
proof -
  from reserve_inventory_Inr [OF assms]
  have "st = after_granted key oid its initial_state"
    by simp
  then have "posts st = map (reserve_post key oid) its"
    and "reservations st = map (reservation_of key oid) its"
    by (simp_all add: after_granted_def initial_state_def)
  then show ?thesis
    by (simp add: confirm_or_rollback_def release_all_reservations)
qed

lemma declining_place_order:
  "place_order declining_env empty_db None example_request =
   place_order example_env empty_db None example_request"
  by (simp add: declining_env_def place_order_charge_response)

lemma example_posts_urls:
  "map fst (snd (snd (place_order example_env empty_db None example_request))) =
     [reserve_url, reserve_url, NOTIFICATION_SERVICE_URL @ ''/notifications'',
      SHIPMENT_SERVICE_URL @ ''/shipments'']"
  by (simp add: example_place_order Let_def)
    (simp add: after_granted_def initial_state_def example_request_def reserve_post_def
      notification_post_def shipment_post_def)

lemma example_order_statuses:
  "map order_status (Orders (fst (snd (place_order example_env empty_db None example_request))))
     = [''CONFIRMED''] \<and>
   map payment_status (Orders (fst (snd (place_order example_env empty_db None example_request))))
     = [''PAID'']"
  by (simp add: example_place_order Let_def committed_def new_order_row_def)
    (simp add: empty_db_def)

lemma release_all_urls: "fst ` set (release_all rs) \<subseteq> {release_url}"
  by (auto simp: release_all_def)

lemma reserve_inventory_urls:
  "fst ` set (posts st) \<subseteq> {reserve_url, release_url} \<Longrightarrow>
     (case reserve_inventory env key oid i its st of
        Inl (exn, st') \<Rightarrow> fst ` set (posts st') \<subseteq> {reserve_url, release_url}
      | Inr st' \<Rightarrow> fst ` set (posts st') \<subseteq> {reserve_url, release_url})"
proof (induction its arbitrary: i st)
  case Nil
  then show ?case by simp
next
  case (Cons item rest)
  let ?st1 = "st\<lparr>posts := posts st @ [(reserve_url, reservation_data key oid item)]\<rparr>"
  have r: "fst ` set (release_all rs) \<subseteq> {reserve_url, release_url}" for rs
    using release_all_urls [of rs] by blast
  from Cons.prems have p1: "fst ` set (posts ?st1) \<subseteq> {reserve_url, release_url}"
    by auto
  show ?case
  proof (cases "reserve_response env i (reservation_data key oid item)")
    case (RequestException e)
    with p1 r show ?thesis
      by (simp add: Let_def unavailable_def image_Un)
  next
    case (Response sc body js)
    show ?thesis
    proof (cases "sc = 200")
      case False
      with Response p1 r show ?thesis
        by (simp add: Let_def image_Un)
    next
      case True
      show ?thesis
      proof (cases js)
        case (Some e)
        with Response True p1 r show ?thesis
          by (simp add: Let_def unavailable_def image_Un)
      next
        case None
        show ?thesis
        proof (cases "float_of_int (quantity item)")
          case n: None
          with Response True None p1 show ?thesis
            by (simp add: Let_def)
        next
          case (Some q)
          let ?st3 = "?st1
                \<lparr>reservations := reservations ?st1 @
                   [(key @ ''_'' @ str_int (product_id item), str_int oid)],
                 order_items := order_items ?st1 @
                   [\<lparr>item_product_id = product_id item, item_sku = sku item,
                     item_quantity = quantity item, item_unit_price = unit_price\<rparr>],
                 total_amount := float_add (total_amount ?st1) (float_mul unit_price q)\<rparr>"
          from p1 have "fst ` set (posts ?st3) \<subseteq> {reserve_url, release_url}"
            by simp
          from Cons.IH [OF this, of "Suc i"] Response True None Some show ?thesis
            by (simp add: Let_def)
        qed
      qed
    qed
  qed
qed

lemma place_order_urls:
  "fst ` set (snd (snd (place_order env db header req))) \<subseteq> service_urls"
proof -
  let ?key = "effective_key env header req"
  let ?oid = "time_millis env mod 2147483647"
  have r: "fst ` set (release_all rs) \<subseteq> service_urls" for rs
    using release_all_urls [of rs] by (auto simp: service_urls_def)
  have i: "fst ` set (posts initial_state) \<subseteq> {reserve_url, release_url}"
    by (simp add: initial_state_def)
  note l = reserve_inventory_urls [OF i, of env ?key ?oid 0 "items req"]
  show ?thesis
  proof (cases "select_order_by_key db ?key")
    case (Some existing)
    then show ?thesis
      by (simp add: place_order_cases Let_def)
  next
    case None
    show ?thesis
    proof (cases "reserve_inventory env ?key ?oid 0 (items req) initial_state")
      case (Inl failure)
      obtain exn st where f: "failure = (exn, st)"
        by (cases failure)
      with l Inl have "fst ` set (posts st) \<subseteq> service_urls"
        by (auto simp: service_urls_def)
      with None Inl f r [of "reservations st"] show ?thesis
        by (cases exn) (simp_all add: place_order_cases Let_def on_exception_def image_Un)
    next
      case (Inr st)
      with l have "fst ` set (posts st) \<subseteq> service_urls"
        by (auto simp: service_urls_def)
      with None Inr r [of "reservations st"] show ?thesis
        by (simp add: place_order_cases Let_def confirm_or_rollback_def on_exception_def
            image_Un notification_post_def shipment_post_def service_urls_def
            split: option.splits)
    qed
  qed
qed

lemma service_urls_explicit:
  "service_urls =
     {''http://inventoryservice:3000/v1/inventory/reserve'',
      ''http://inventoryservice:3000/v1/inventory/release'',
      ''http://notification_service:8080/v1/notifications'',
      ''http://shipment_service:8001/v1/shipments''}"
  by (simp add: service_urls_def reserve_url_def release_url_def INVENTORY_SERVICE_URL_def
      NOTIFICATION_SERVICE_URL_def SHIPMENT_SERVICE_URL_def)

lemma service_url_not_payment:
  "u \<in> service_urls \<Longrightarrow> take (length PAYMENT_SERVICE_URL) u \<noteq> PAYMENT_SERVICE_URL"
  by (auto simp: service_urls_explicit PAYMENT_SERVICE_URL_def)

lemma place_order_posts_no_charge:
  "filter to_payment_service (snd (snd (place_order env db header req))) = []"
proof -
  have "\<not> to_payment_service p" if "p \<in> set (snd (snd (place_order env db header req)))" for p
  proof -
    from that place_order_urls [of env db header req] have "fst p \<in> service_urls"
      by auto
    then show ?thesis
      by (simp add: to_payment_service_def service_url_not_payment)
  qed
  then show ?thesis
    by (simp add: filter_empty_conv)
qed

lemma example_posts:
  "snd (snd (place_order example_env empty_db None example_request)) =
     [(''http://inventoryservice:3000/v1/inventory/reserve'',
       Reservation_data 1 2 ''k1_1'' ''1340435346''),
      (''http://inventoryservice:3000/v1/inventory/reserve'',
       Reservation_data 2 1 ''k1_2'' ''1340435346''),
      (''http://notification_service:8080/v1/notifications'',
       Notification_data ''ORDER_CONFIRMED'' 7 1340435346
         ''Your order #1340435346 has been confirmed and payment processed successfully.''),
      (''http://shipment_service:8001/v1/shipments'',
       Shipment_data 1340435346 7
         [\<lparr>item_product_id = 1, item_sku = ''LAPTOP001'', item_quantity = 2,
           item_unit_price = float_literal 2999 100\<rparr>,
          \<lparr>item_product_id = 2, item_sku = ''MOUSE001'', item_quantity = 1,
           item_unit_price = float_literal 2999 100\<rparr>])]"
  by (simp add: example_place_order Let_def)
    (simp add: after_granted_def initial_state_def example_request_def reserve_post_def
      reservation_data_def notification_post_def shipment_post_def order_item_of_def
      unit_price_def reserve_url_def INVENTORY_SERVICE_URL_def NOTIFICATION_SERVICE_URL_def
      SHIPMENT_SERVICE_URL_def str_int_def)

lemma example_confirmed:
  "map order_status (Orders (fst (snd (place_order example_env empty_db None example_request))))
     = [''CONFIRMED'']"
  by (simp add: example_place_order Let_def committed_def new_order_row_def)
    (simp add: empty_db_def)

lemma cancel_order_rejected:
  assumes "find (\<lambda>r. order_id r = oid) (Orders db) = Some order"
    and "order_status order \<in> {''CANCELLED'', ''SHIPPED'', ''DELIVERED''}"
  shows "cancel_order env db oid =
           (Inl (HTTPException 400 (''Cannot cancel order with status: '' @ order_status order)),
            db, [])"
  using assms by (auto simp: cancel_order_def select_order_by_id_def)

lemma cancel_order_posts:
  assumes "find (\<lambda>r. order_id r = oid) (Orders db) = Some order"
    and "order_status order \<notin> {''CANCELLED'', ''SHIPPED'', ''DELIVERED''}"
  shows "snd (snd (cancel_order env db oid)) =
           (case idempotency_key order of
              None \<Rightarrow> []
            | Some k \<Rightarrow>
                if k = [] then []
                else map (\<lambda>l. (INVENTORY_SERVICE_URL @ ''/inventory/release'',
                               Release_data (k @ ''_'' @ str_int (row_product_id l))
                                 (str_int oid)))
                       (filter (\<lambda>l. row_order_id l = oid) (Order_Items db)))"
  using assms
  by (auto simp: cancel_order_def select_order_by_id_def cancel_releases_def
      select_items_def release_url_def Let_def split: option.splits)

lemma cancel_order_cancelled:
  assumes "find (\<lambda>r. order_id r = oid) (Orders db) = Some order"
    and "order_status order \<notin> {''CANCELLED'', ''SHIPPED'', ''DELIVERED''}"
    and "db_fault env \<noteq> Some 0" and "db_fault env \<noteq> Some 1"
  shows "fst (cancel_order env db oid) = Inr (''Order cancelled successfully'', oid)"
    and "fst (snd (cancel_order env db oid)) =
           db\<lparr>Orders := map (\<lambda>r. if order_id r = oid then r\<lparr>order_status := ''CANCELLED''\<rparr>
                                  else r) (Orders db)\<rparr>"
  using assms
  by (auto simp: cancel_order_def select_order_by_id_def update_cancelled_def Let_def)

lemma cancel_order_write_fault:
  assumes "find (\<lambda>r. order_id r = oid) (Orders db) = Some order"
    and "order_status order \<notin> {''CANCELLED'', ''SHIPPED'', ''DELIVERED''}"
    and "db_fault env = Some 0 \<or> db_fault env = Some 1"
  shows "fst (cancel_order env db oid) = Inl (HTTPException 500 (db_error env))"
    and "fst (snd (cancel_order env db oid)) = db"
  using assms
  by (auto simp: cancel_order_def select_order_by_id_def Let_def)

lemma cancel_shipped:
  "cancel_order example_env shipped_db 41 =
     (Inl (HTTPException 400 ''Cannot cancel order with status: SHIPPED''), shipped_db, [])"
  by (simp add: cancel_order_def select_order_by_id_def shipped_db_def stored_order_def)

lemma cancel_keyless:
  "cancel_order example_env keyless_db 41 =
     (Inr (''Order cancelled successfully'', 41),
      keyless_db\<lparr>Orders := [stored_order\<lparr>idempotency_key := None,
                                         order_status := ''CANCELLED''\<rparr>]\<rparr>,
      [])"
  by (simp add: cancel_order_def select_order_by_id_def keyless_db_def stored_order_def
      cancel_releases_def update_cancelled_def example_env_def Let_def)

lemma literal_0_05: "float_literal 5 100 = Finite 7205759403792794 (- 57)"
  using TAX_RATE_value by (simp add: TAX_RATE_def)

lemma literal_10_00: "float_literal 1000 100 = Finite 5629499534213120 (- 49)"
  using SHIPPING_COST_value by (simp add: SHIPPING_COST_def)

lemma zero_tax: "float_mul (Finite 0 0) (float_literal 5 100) = Finite 0 0"
  by (simp add: literal_0_05 float_mul_def round_binary64_def)

lemma zero_sum: "float_add (Finite 0 0) (Finite 0 0) = Finite 0 0"
  by (simp add: float_add_def round_binary64_def)

lemma zero_plus_shipping:
  "float_add (Finite 0 0) (float_literal 1000 100) = float_literal 1000 100"
  by (simp add: literal_10_00 float_add_def round_binary64_def Let_def)

lemma calculate_totals_zero:
  "calculate_totals env (Finite 0 0) =
     \<lparr>tot_subtotal = Finite 0 0, tot_tax_amount = Finite 0 0,
      tot_shipping_amount = float_literal 1000 100,
      tot_total_with_tax_shipping = float_literal 1000 100,
      tot_totals_signature =
        sign_totals env (Finite 0 0) (Finite 0 0) (float_literal 1000 100)
          (float_literal 1000 100)\<rparr>"
  by (simp add: calculate_totals_def Let_def TAX_RATE_def SHIPPING_COST_def zero_tax zero_sum
      zero_plus_shipping)

lemma place_order_empty_items:
  assumes "items req = []"
    and "select_order_by_key db (effective_key env header req) = None"
    and "db_fault env = None"
  shows "place_order env db header req =
           (Inr (Order_placed ''Order placed successfully''
              \<lparr>resp_order_id = time_millis env mod 2147483647,
               resp_customer_id = req_customer_id req,
               resp_order_status = ''CONFIRMED'', resp_payment_status = ''PAID'',
               resp_subtotal = Finite 0 0, resp_tax_amount = Finite 0 0,
               resp_shipping_amount = float_literal 1000 100,
               resp_order_total = float_literal 1000 100,
               resp_payment_id = ''pay_'' @ str_int (time_seconds env),
               resp_idempotency_key = effective_key env header req,
               resp_created_at = now_response env, resp_items = []\<rparr>),
            \<lparr>Orders = Orders db @
               [\<lparr>order_id = time_millis env mod 2147483647,
                 customer_id = req_customer_id req,
                 order_status = ''CONFIRMED'', payment_status = ''PAID'',
                 order_total = float_literal 1000 100, subtotal = Finite 0 0,
                 tax_amount = Finite 0 0, shipping_amount = float_literal 1000 100,
                 totals_signature =
                   sign_totals env (Finite 0 0) (Finite 0 0) (float_literal 1000 100)
                     (float_literal 1000 100),
                 idempotency_key = Some (effective_key env header req),
                 created_at = now_insert env\<rparr>],
             Order_Items = Order_Items db\<rparr>,
            [(NOTIFICATION_SERVICE_URL @ ''/notifications'',
              Notification_data ''ORDER_CONFIRMED'' (req_customer_id req)
                (time_millis env mod 2147483647)
                (''Your order #'' @ str_int (time_millis env mod 2147483647) @
                 '' has been confirmed and payment processed successfully.'')),
             (SHIPMENT_SERVICE_URL @ ''/shipments'',
              Shipment_data (time_millis env mod 2147483647) (req_customer_id req) [])])"
proof -
  let ?key = "effective_key env header req"
  let ?oid = "time_millis env mod 2147483647"
  have g: "\<forall>j<length (items req). granted env ?key ?oid j (items req ! j)"
    by (simp add: assms(1))
  have c: "committed env db req ?key ?oid initial_state =
             \<lparr>Orders = Orders db @
               [\<lparr>order_id = ?oid, customer_id = req_customer_id req,
                 order_status = ''CONFIRMED'', payment_status = ''PAID'',
                 order_total = float_literal 1000 100, subtotal = Finite 0 0,
                 tax_amount = Finite 0 0, shipping_amount = float_literal 1000 100,
                 totals_signature =
                   sign_totals env (Finite 0 0) (Finite 0 0) (float_literal 1000 100)
                     (float_literal 1000 100),
                 idempotency_key = Some ?key, created_at = now_insert env\<rparr>],
             Order_Items = Order_Items db\<rparr>"
    by (cases db)
      (simp add: committed_def initial_state_def calculate_totals_zero new_order_row_def)
  have p: "placed_response env req ?key ?oid initial_state =
             \<lparr>resp_order_id = ?oid, resp_customer_id = req_customer_id req,
               resp_order_status = ''CONFIRMED'', resp_payment_status = ''PAID'',
               resp_subtotal = Finite 0 0, resp_tax_amount = Finite 0 0,
               resp_shipping_amount = float_literal 1000 100,
               resp_order_total = float_literal 1000 100,
               resp_payment_id = ''pay_'' @ str_int (time_seconds env),
               resp_idempotency_key = ?key,
               resp_created_at = now_response env, resp_items = []\<rparr>"
    by (simp add: placed_response_def initial_state_def calculate_totals_zero Let_def)
  have i: "posts initial_state = []" "order_items initial_state = []"
    by (simp_all add: initial_state_def)
  show ?thesis
    by (simp add: place_order_succeeds [OF assms(2) g assms(3)] assms(1) Let_def c p i
        notification_post_def shipment_post_def)
qed

lemma reserve_inventory_posts_extend:
  "\<exists>ps. posts (case reserve_inventory env key oid i its st of
                  Inl (exn, st') \<Rightarrow> st' | Inr st' \<Rightarrow> st') = posts st @ ps"
proof (induction its arbitrary: i st)
  case Nil
  then show ?case by simp
next
  case (Cons item rest)
  let ?st1 = "st\<lparr>posts := posts st @ [(reserve_url, reservation_data key oid item)]\<rparr>"
  show ?case
  proof (cases "reserve_response env i (reservation_data key oid item)")
    case (RequestException e)
    then show ?thesis
      by (simp add: Let_def unavailable_def)
  next
    case (Response sc body js)
    show ?thesis
    proof (cases "sc = 200")
      case False
      with Response show ?thesis
        by (simp add: Let_def)
    next
      case True
      show ?thesis
      proof (cases js)
        case (Some e)
        with Response True show ?thesis
          by (simp add: Let_def unavailable_def)
      next
        case None
        show ?thesis
        proof (cases "float_of_int (quantity item)")
          case n: None
          with Response True None show ?thesis
            by (simp add: Let_def)
        next
          case (Some q)
          let ?st3 = "?st1
                \<lparr>reservations := reservations ?st1 @
                   [(key @ ''_'' @ str_int (product_id item), str_int oid)],
                 order_items := order_items ?st1 @
                   [\<lparr>item_product_id = product_id item, item_sku = sku item,
                     item_quantity = quantity item, item_unit_price = unit_price\<rparr>],
                 total_amount := float_add (total_amount ?st1) (float_mul unit_price q)\<rparr>"
          from Cons.IH [of "Suc i" ?st3] obtain ps where
            "posts (case reserve_inventory env key oid (Suc i) rest ?st3 of
                      Inl (exn, st') \<Rightarrow> st' | Inr st' \<Rightarrow> st') = posts ?st3 @ ps"
            by blast
          with Response True None Some show ?thesis
            by (simp add: Let_def)
        qed
      qed
    qed
  qed
qed

lemma reserve_inventory_first_post:
  "\<exists>ps. posts (case reserve_inventory env key oid i (item # rest) initial_state of
                  Inl (exn, st') \<Rightarrow> st' | Inr st' \<Rightarrow> st') =
          (reserve_url, reservation_data key oid item) # ps"
proof -
  let ?st1 = "initial_state\<lparr>posts := [(reserve_url, reservation_data key oid item)]\<rparr>"
  let ?st3 = "\<lambda>q. ?st1
                \<lparr>reservations := reservations ?st1 @
                   [(key @ ''_'' @ str_int (product_id item), str_int oid)],
                 order_items := order_items ?st1 @
                   [\<lparr>item_product_id = product_id item, item_sku = sku item,
                     item_quantity = quantity item, item_unit_price = unit_price\<rparr>],
                 total_amount := float_add (total_amount ?st1) (float_mul unit_price q)\<rparr>"
  have e: "\<exists>ps. posts (case reserve_inventory env key oid (Suc i) rest (?st3 q) of
                  Inl (exn, st') \<Rightarrow> st' | Inr st' \<Rightarrow> st') =
          (reserve_url, reservation_data key oid item) # ps" for q
    using reserve_inventory_posts_extend [of env key oid "Suc i" rest "?st3 q"] by simp
  show ?thesis
    using e
    by (simp add: Let_def unavailable_def initial_state_def
        split: post_result.splits option.splits)
qed

lemma place_order_first_post:
  assumes "items req = item # rest"
    and "select_order_by_key db (effective_key env header req) = None"
  shows "hd (snd (snd (place_order env db header req))) =
           (reserve_url,
            reservation_data (effective_key env header req) (time_millis env mod 2147483647)
              item)"
proof -
  let ?key = "effective_key env header req"
  let ?oid = "time_millis env mod 2147483647"
  from reserve_inventory_first_post [of env ?key ?oid 0 item rest] obtain ps where
    ps: "posts (case reserve_inventory env ?key ?oid 0 (item # rest) initial_state of
                  Inl (exn, st') \<Rightarrow> st' | Inr st' \<Rightarrow> st') =
          (reserve_url, reservation_data ?key ?oid item) # ps"
    by blast
  show ?thesis
  proof (cases "reserve_inventory env ?key ?oid 0 (item # rest) initial_state")
    case (Inl failure)
    obtain exn st where f: "failure = (exn, st)"
      by (cases failure)
    with ps Inl have "posts st = (reserve_url, reservation_data ?key ?oid item) # ps"
      by simp
    with assms Inl f show ?thesis
      by (cases exn) (simp_all add: place_order_cases Let_def on_exception_def)
  next
    case (Inr st)
    with ps have "posts st = (reserve_url, reservation_data ?key ?oid item) # ps"
      by simp
    with assms Inr show ?thesis
      by (simp add: place_order_cases Let_def confirm_or_rollback_def on_exception_def
          split: option.splits)
  qed
qed

lemma place_order_never_400:
  "fst (place_order env db header req) \<noteq> Inl (HTTPException 400 d)"
  using place_order_failure_status [of env db header req 400 d] by auto

lemma empty_key: "effective_key example_env None empty_request = ''k0''"
  by (simp add: effective_key_def empty_request_def)

lemma negative_key: "effective_key example_env None negative_request = ''k4''"
  by (simp add: effective_key_def negative_request_def)

lemma example_no_fault: "db_fault example_env = None"
  by (simp add: example_env_def)

lemma empty_place_order:
  "place_order example_env empty_db None empty_request =
     (Inr (Order_placed ''Order placed successfully''
        \<lparr>resp_order_id = 1340435346, resp_customer_id = 7,
         resp_order_status = ''CONFIRMED'', resp_payment_status = ''PAID'',
         resp_subtotal = Finite 0 0, resp_tax_amount = Finite 0 0,
         resp_shipping_amount = float_literal 1000 100,
         resp_order_total = float_literal 1000 100,
         resp_payment_id = ''pay_1700000000'', resp_idempotency_key = ''k0'',
         resp_created_at = ''t1'', resp_items = []\<rparr>),
      \<lparr>Orders =
         [\<lparr>order_id = 1340435346, customer_id = 7,
           order_status = ''CONFIRMED'', payment_status = ''PAID'',
           order_total = float_literal 1000 100, subtotal = Finite 0 0,
           tax_amount = Finite 0 0, shipping_amount = float_literal 1000 100,
           totals_signature =
             sign_totals example_env (Finite 0 0) (Finite 0 0) (float_literal 1000 100)
               (float_literal 1000 100),
           idempotency_key = Some ''k0'', created_at = ''t0''\<rparr>],
       Order_Items = []\<rparr>,
      [(''http://notification_service:8080/v1/notifications'',
        Notification_data ''ORDER_CONFIRMED'' 7 1340435346
          ''Your order #1340435346 has been confirmed and payment processed successfully.''),
       (''http://shipment_service:8001/v1/shipments'', Shipment_data 1340435346 7 [])])"
proof -
  have i: "items empty_request = []"
    by (simp add: empty_request_def)
  have c: "req_customer_id empty_request = 7"
    by (simp add: empty_request_def)
  have t: "time_seconds example_env = 1700000000" "now_response example_env = ''t1''"
    "now_insert example_env = ''t0''"
    by (simp_all add: example_env_def)
  show ?thesis
    by (simp add: place_order_empty_items [OF i example_fresh example_no_fault] empty_key
        example_oid c t)
      (simp add: empty_db_def NOTIFICATION_SERVICE_URL_def SHIPMENT_SERVICE_URL_def str_int_def)
qed

lemma negative_first_post:
  "hd (snd (snd (place_order example_env empty_db None negative_request))) =
     (''http://inventoryservice:3000/v1/inventory/reserve'',
      Reservation_data 4 (- 1) ''k4_4'' ''1340435346'')"
proof -
  have i: "items negative_request = [\<lparr>product_id = 4, sku = ''DESK001'', quantity = - 1\<rparr>]"
    by (simp add: negative_request_def)
  show ?thesis
    by (simp add: place_order_first_post [OF i example_fresh] negative_key example_oid)
      (simp add: reservation_data_def reserve_url_def INVENTORY_SERVICE_URL_def str_int_def)
qed

lemma negative_granted:
  "\<forall>j<length (items negative_request).
      granted example_env (effective_key example_env None negative_request)
        (time_millis example_env mod 2147483647) j (items negative_request ! j)"
  by (simp add: negative_request_def granted_def example_env_def float_of_int_def
      round_binary64_def Let_def)

lemma negative_place_order:
  "fst (snd (place_order example_env empty_db None negative_request)) =
     committed example_env empty_db negative_request ''k4'' 1340435346
       (after_granted ''k4'' 1340435346 (items negative_request) initial_state)"
  by (simp add: place_order_succeeds [OF example_fresh negative_granted example_no_fault]
      negative_key example_oid Let_def)

lemma negative_committed:
  "map order_status
     (Orders (fst (snd (place_order example_env empty_db None negative_request)))) =
     [''CONFIRMED''] \<and>
   Order_Items (fst (snd (place_order example_env empty_db None negative_request))) =
     [\<lparr>row_order_id = 1340435346, row_product_id = 4, row_sku = ''DESK001'',
       row_quantity = - 1, row_unit_price = float_literal 2999 100\<rparr>]"
  by (simp add: negative_place_order committed_def new_order_row_def after_granted_def
      initial_state_def)
    (simp add: empty_db_def negative_request_def order_item_of_def new_item_row_def
      unit_price_def)



















lemma sorted_totals_data:
  "sort_key fst (totals_data sub tax ship tot) =
     [(''shipping'', ship), (''subtotal'', sub), (''tax'', tax), (''total'', tot)]"
  by (simp add: totals_data_def)

lemma sign_totals_canonical:
  "sign_totals env sub tax ship tot =
     sha256_hexdigest env (canonical_encoding env sub tax ship tot)"
  by (simp add: sign_totals_def json_dumps_sorted_def sorted_totals_data join_def
      canonical_encoding_def)

lemma new_order_row_valid:
  "signature_valid env (new_order_row env req key oid (calculate_totals env amount))"
  by (simp add: signature_valid_def recompute_signature_def new_order_row_def
      calculate_totals_def Let_def sign_totals_canonical)

lemma place_order_orders:
  "Orders (fst (snd (place_order env db header req))) = Orders db \<or>
   (\<exists>amount. Orders (fst (snd (place_order env db header req))) =
      Orders db @ [new_order_row env req (effective_key env header req)
                     (time_millis env mod 2147483647) (calculate_totals env amount)])"
proof (cases "\<exists>msg po. fst (place_order env db header req) = Inr (Order_placed msg po)")
  case True
  then obtain msg po where "fst (place_order env db header req) = Inr (Order_placed msg po)"
    by blast
  from place_order_placed [OF this] show ?thesis
    by (auto simp: Let_def committed_def)
next
  case False
  then have "fst (snd (place_order env db header req)) = db"
    using place_order_not_placed by blast
  then show ?thesis
    by simp
qed

lemma place_order_keeps_signatures_valid:
  assumes "\<forall>r\<in>set (Orders db). signature_valid env r"
  shows "\<forall>r\<in>set (Orders (fst (snd (place_order env db header req)))). signature_valid env r"
  using place_order_orders [of env db header req] assms new_order_row_valid
  by auto

lemma cancel_order_keeps_signatures_valid:
  assumes "\<forall>r\<in>set (Orders db). signature_valid env r"
  shows "\<forall>r\<in>set (Orders (fst (snd (cancel_order env db oid)))). signature_valid env r"
  using assms
  by (auto simp: cancel_order_def update_cancelled_def Let_def signature_valid_def
      recompute_signature_def split: option.splits)

lemma placed_order_signature:
  assumes "fst (place_order env db header req) = Inr (Order_placed msg po)"
  shows "\<exists>row. Orders (fst (snd (place_order env db header req))) = Orders db @ [row] \<and>
           order_id row = resp_order_id po \<and>
           totals_signature row =
             sha256_hexdigest env
               (canonical_encoding env (subtotal row) (tax_amount row) (shipping_amount row)
                  (order_total row))"
proof -
  let ?key = "effective_key env header req"
  let ?oid = "time_millis env mod 2147483647"
  let ?st = "after_granted ?key ?oid (items req) initial_state"
  let ?row = "new_order_row env req ?key ?oid (calculate_totals env (total_amount ?st))"
  from place_order_placed [OF assms] assms
  have "Orders (fst (snd (place_order env db header req))) = Orders db @ [?row]"
    and "po = placed_response env req ?key ?oid ?st"
    by (simp_all add: Let_def committed_def)
  moreover have "signature_valid env ?row"
    by (rule new_order_row_valid)
  ultimately have "Orders (fst (snd (place_order env db header req))) = Orders db @ [?row] \<and>
           order_id ?row = resp_order_id po \<and>
           totals_signature ?row =
             sha256_hexdigest env
               (canonical_encoding env (subtotal ?row) (tax_amount ?row) (shipping_amount ?row)
                  (order_total ?row))"
    by (simp add: signature_valid_def recompute_signature_def placed_response_def Let_def
        new_order_row_def)
  then show ?thesis
    by blast
qed

lemma granted_json_float:
  "granted (env\<lparr>json_float := f\<rparr>) key oid i item = granted env key oid i item"
  by (simp add: granted_def)

lemma printing_place_order:
  assumes "select_order_by_key db ''k1'' = None"
  shows "place_order printing_env db None example_request =
     (let st = after_granted ''k1'' 1340435346 (items example_request) initial_state
      in (Inr (Order_placed ''Order placed successfully''
                 (placed_response printing_env example_request ''k1'' 1340435346 st)),
          committed printing_env db example_request ''k1'' 1340435346 st,
          posts st @ [notification_post example_request 1340435346,
                      shipment_post example_request 1340435346 (order_items st)]))"
proof -
  have k: "effective_key printing_env None example_request = ''k1''"
    by (simp add: effective_key_def example_request_def)
  have o: "time_millis printing_env mod 2147483647 = 1340435346"
    by (simp add: printing_env_def example_env_def)
  have f: "db_fault printing_env = None"
    by (simp add: printing_env_def example_env_def)
  have "\<forall>j<length (items example_request).
          granted printing_env ''k1'' 1340435346 j (items example_request ! j)"
    using example_items_granted by (simp add: printing_env_def granted_json_float)
  then have g: "\<forall>j<length (items example_request).
             granted printing_env (effective_key printing_env None example_request)
               (time_millis printing_env mod 2147483647) j (items example_request ! j)"
    by (simp only: k o)
  from assms have e: "select_order_by_key db
      (effective_key printing_env None example_request) = None"
    by (simp only: k)
  from place_order_succeeds [OF e g f] show ?thesis
    by (simp add: k o Let_def)
qed

lemma example_totals:
  "calculate_totals env
     (total_amount (after_granted key oid (items example_request) initial_state)) =
     \<lparr>tot_subtotal = float_literal 8997 100, tot_tax_amount = float_literal 44985 10000,
      tot_shipping_amount = float_literal 1000 100,
      tot_total_with_tax_shipping = float_literal 1044685 10000,
      tot_totals_signature =
        sign_totals env (float_literal 8997 100) (float_literal 44985 10000)
          (float_literal 1000 100) (float_literal 1044685 10000)\<rparr>"
proof -
  have s: "total_amount (after_granted key oid (items example_request) initial_state) =
             float_literal 8997 100"
    by (simp only: total_amount_after_granted example_items example_subtotal literal_89_97)
  have t: "float_mul (float_literal 8997 100) TAX_RATE = float_literal 44985 10000"
    by (simp only: TAX_RATE_def literal_89_97 example_tax literal_4_4985)
  have u: "float_add (float_add (float_literal 8997 100) (float_literal 44985 10000))
             SHIPPING_COST = float_literal 1044685 10000"
    by (simp only: SHIPPING_COST_def literal_89_97 literal_4_4985 example_total
        literal_104_4685)
  show ?thesis
    by (simp add: calculate_totals_def Let_def s t u) (simp add: SHIPPING_COST_def)
qed

lemma example_repr_values:
  "example_repr (float_literal 8997 100) = ''89.97''"
  "example_repr (float_literal 44985 10000) = ''4.4985''"
  "example_repr (float_literal 1000 100) = ''10.0''"
  "example_repr (float_literal 1044685 10000) = ''104.4685''"
  "example_repr (Finite 0 0) = ''0.0''"
proof -
  have l: "float_literal 1000 100 = Finite 5629499534213120 (- 49)"
    using SHIPPING_COST_value by (simp add: SHIPPING_COST_def)
  show "example_repr (float_literal 8997 100) = ''89.97''"
    by (simp add: example_repr_def)
  show "example_repr (float_literal 44985 10000) = ''4.4985''"
    by (simp add: example_repr_def literal_89_97 literal_4_4985)
  show "example_repr (float_literal 1000 100) = ''10.0''"
    by (simp add: example_repr_def literal_89_97 literal_4_4985 l)
  show "example_repr (float_literal 1044685 10000) = ''104.4685''"
    by (simp add: example_repr_def literal_89_97 literal_4_4985 l literal_104_4685)
  show "example_repr (Finite 0 0) = ''0.0''"
    by (simp add: example_repr_def literal_89_97 literal_4_4985 l literal_104_4685)
qed

lemma printing_env_functions:
  "json_float printing_env = example_repr"
  "sha256_hexdigest printing_env = (\<lambda>s. ''#'' @ s)"
  "db_fault printing_env = None"
  by (simp_all add: printing_env_def example_env_def)

lemma signed_db_fresh: "select_order_by_key signed_db ''k1'' = None"
  by (simp add: select_order_by_key_def signed_db_def)

lemma signed_db_valid:
  "\<forall>r\<in>set (Orders signed_db). totals_signature r = recompute_signature printing_env r"
  by (simp add: signed_db_def recompute_signature_def canonical_encoding_def
      printing_env_functions example_repr_values)

lemma printing_signature:
  "map totals_signature
     (Orders (fst (snd (place_order printing_env signed_db None example_request)))) =
     [''#{'' @ [CHR 0x22] @ ''shipping'' @ [CHR 0x22] @ '': 10.0, '' @
      [CHR 0x22] @ ''subtotal'' @ [CHR 0x22] @ '': 0.0, '' @
      [CHR 0x22] @ ''tax'' @ [CHR 0x22] @ '': 0.0, '' @
      [CHR 0x22] @ ''total'' @ [CHR 0x22] @ '': 10.0}'',
      ''#{'' @ [CHR 0x22] @ ''shipping'' @ [CHR 0x22] @ '': 10.0, '' @
      [CHR 0x22] @ ''subtotal'' @ [CHR 0x22] @ '': 89.97, '' @
      [CHR 0x22] @ ''tax'' @ [CHR 0x22] @ '': 4.4985, '' @
      [CHR 0x22] @ ''total'' @ [CHR 0x22] @ '': 104.4685}'']"
  by (simp add: printing_place_order [OF signed_db_fresh] Let_def committed_def
      new_order_row_def example_totals sign_totals_canonical canonical_encoding_def
      printing_env_functions example_repr_values)
    (simp add: signed_db_def)

lemma cancel_signed_order:
  "map order_status (Orders (fst (snd (cancel_order printing_env signed_db 41)))) =
     [''CANCELLED''] \<and>
   map totals_signature (Orders (fst (snd (cancel_order printing_env signed_db 41)))) =
     [''#{'' @ [CHR 0x22] @ ''shipping'' @ [CHR 0x22] @ '': 10.0, '' @
      [CHR 0x22] @ ''subtotal'' @ [CHR 0x22] @ '': 0.0, '' @
      [CHR 0x22] @ ''tax'' @ [CHR 0x22] @ '': 0.0, '' @
      [CHR 0x22] @ ''total'' @ [CHR 0x22] @ '': 10.0}'']"
  by (simp add: cancel_order_def select_order_by_id_def signed_db_def update_cancelled_def
      Let_def printing_env_functions)

section \<open>Claims\<close>

text \<open>
  C1. When the idempotency key of a request (header, else body key, else a fresh UUID)
  is the key of a row of \<^verbatim>\<open>Orders\<close>, \<^verbatim>\<open>place_order\<close> returns a stored order with that
  key (the first one the \<^verbatim>\<open>SELECT\<close> finds), the rows of \<^verbatim>\<open>Order_Items\<close> that carry that
  order's id, in table order, and no other row, the message
  "Order already exists" and \<^verbatim>\<open>idempotent = True\<close>; the database is unchanged and
  nothing is posted: no reserve call, no charge, no second order or order line. This
  holds whatever the items of the request are.
\<close>

theorem duplicate_key_returns_existing_order:
  assumes "r \<in> set (Orders db)"
    and "idempotency_key r = Some (effective_key env header req)"
  shows "\<exists>existing.
           existing \<in> set (Orders db) \<and>
           idempotency_key existing = Some (effective_key env header req) \<and>
           (\<forall>its. place_order env db header (req\<lparr>items := its\<rparr>) =
              (Inr (Order_already_exists ''Order already exists'' existing
                      (filter (\<lambda>l. row_order_id l = order_id existing) (Order_Items db))
                      True),
               db, []))"
proof -
  let ?k = "effective_key env header req"
  from assms have "find (\<lambda>r. idempotency_key r = Some ?k) (Orders db) \<noteq> None"
    by (auto simp: find_None_iff_none)
  then obtain existing
    where f: "find (\<lambda>r. idempotency_key r = Some ?k) (Orders db) = Some existing"
    by auto
  have k: "effective_key env header (req\<lparr>items := its\<rparr>) = ?k" for its
    by (simp add: effective_key_def)
  have "place_order env db header (req\<lparr>items := its\<rparr>) =
          (Inr (Order_already_exists ''Order already exists'' existing
                  (filter (\<lambda>l. row_order_id l = order_id existing) (Order_Items db))
                  True), db, [])" for its
    using f by (simp add: place_order_def k select_order_by_key_def select_items_def)
  with find_Some_mem [OF f] show ?thesis
    by blast
qed

theorem duplicate_key_returns_existing_order_witness:
  "place_order example_env stored_db (Some ''k1'') example_request =
     (Inr (Order_already_exists ''Order already exists''
             \<lparr>order_id = 41, customer_id = 7, order_status = ''CONFIRMED'',
              payment_status = ''PAID'', order_total = Finite 0 0, subtotal = Finite 0 0,
              tax_amount = Finite 0 0, shipping_amount = Finite 0 0,
              totals_signature = ''s'', idempotency_key = Some ''k1'', created_at = ''t''\<rparr>
             [\<lparr>row_order_id = 41, row_product_id = 9, row_sku = ''PEN'',
               row_quantity = 3, row_unit_price = Finite 1 0\<rparr>]
             True),
      \<lparr>Orders =
         [\<lparr>order_id = 41, customer_id = 7, order_status = ''CONFIRMED'',
           payment_status = ''PAID'', order_total = Finite 0 0, subtotal = Finite 0 0,
           tax_amount = Finite 0 0, shipping_amount = Finite 0 0,
           totals_signature = ''s'', idempotency_key = Some ''k1'', created_at = ''t''\<rparr>],
       Order_Items =
         [\<lparr>row_order_id = 41, row_product_id = 9, row_sku = ''PEN'',
           row_quantity = 3, row_unit_price = Finite 1 0\<rparr>,
          \<lparr>row_order_id = 42, row_product_id = 5, row_sku = ''INK'',
           row_quantity = 1, row_unit_price = Finite 1 0\<rparr>]\<rparr>,
      [])"
proof -
  have a: "stored_order \<in> set (Orders stored_db)"
    by (simp add: stored_db_def)
  have b: "idempotency_key stored_order =
             Some (effective_key example_env (Some ''k1'') example_request)"
    by (simp add: stored_order_def effective_key_def)
  from duplicate_key_returns_existing_order [OF a b]
  obtain existing where e: "existing \<in> set (Orders stored_db)"
    and p: "\<forall>its. place_order example_env stored_db (Some ''k1'') (example_request\<lparr>items := its\<rparr>) =
              (Inr (Order_already_exists ''Order already exists'' existing
                      (filter (\<lambda>l. row_order_id l = order_id existing) (Order_Items stored_db))
                      True),
               stored_db, [])"
    by blast
  from e have "existing = stored_order"
    by (simp add: stored_db_def)
  with p [rule_format, of "items example_request"] show ?thesis
    by (simp add: stored_order_def stored_db_def)
qed

text \<open>
  C2. Let the request have the items \<open>pre @ item # rest\<close>, let no stored order carry its
  key, and let every item of \<open>pre\<close> be granted. The claim's two failure kinds do not
  follow the kind of the inventory's failure: \<^verbatim>\<open>place_order\<close> looks only at whether the
  status code is 200. If the reserve call for \<open>item\<close> returns any other status (a denial
  such as 409, and an error status such as 500 or 503 alike), it fails with status 409;
  if the call raises a \<^verbatim>\<open>RequestException\<close> (connection error, timeout) or its body does
  not parse, it fails with status 503. In each case the requests posted are the reserve
  calls for \<open>pre\<close> and \<open>item\<close> followed by exactly one release call for every item of
  \<open>pre\<close>, in order, and nothing else: no release for \<open>item\<close>, no call at all for \<open>rest\<close>.
  The database is unchanged, so no order row exists for the aborted request.
\<close>

theorem reservation_failure_releases_earlier_grants:
  assumes key: "key = effective_key env header req"
    and oid: "oid = time_millis env mod 2147483647"
    and fresh: "select_order_by_key db key = None"
    and its: "items req = pre @ item # rest"
    and pre: "\<forall>j<length pre. granted env key oid j (pre ! j)"
  shows "(\<forall>sc body js.
            reserve_response env (length pre) (reservation_data key oid item) =
              Response sc body js \<and> sc \<noteq> 200 \<longrightarrow>
            place_order env db header req =
              (Inl (HTTPException 409
                      (''Failed to reserve inventory for product '' @
                       str_int (product_id item) @ '': '' @ body)),
               db,
               map (reserve_post key oid) (pre @ [item]) @ map (release_post key oid) pre)) \<and>
         (\<forall>e. reserve_response env (length pre) (reservation_data key oid item) =
                RequestException e \<longrightarrow>
            place_order env db header req =
              (Inl (HTTPException 503 (''Inventory service unavailable: '' @ e)),
               db,
               map (reserve_post key oid) (pre @ [item]) @ map (release_post key oid) pre)) \<and>
         (\<forall>body e. reserve_response env (length pre) (reservation_data key oid item) =
                Response 200 body (Some e) \<longrightarrow>
            place_order env db header req =
              (Inl (HTTPException 503 (''Inventory service unavailable: '' @ e)),
               db,
               map (reserve_post key oid) (pre @ [item]) @ map (release_post key oid) pre))"
  using assms by (rule reservation_failure_outcome)

theorem reservation_failure_releases_earlier_grants_witness:
  "place_order denying_env empty_db None three_items_request =
     (Inl (HTTPException 409
             ''Failed to reserve inventory for product 2: insufficient stock''),
      empty_db,
      [(reserve_url, Reservation_data 1 2 ''k2_1'' ''1340435346''),
       (reserve_url, Reservation_data 2 1 ''k2_2'' ''1340435346''),
       (release_url, Release_data ''k2_1'' ''1340435346'')])"
proof -
  let ?key = "''k2''" and ?oid = "1340435346 :: int"
  let ?pre = "[\<lparr>product_id = 1, sku = ''LAPTOP001'', quantity = 2\<rparr>]"
  let ?item = "\<lparr>product_id = 2, sku = ''MOUSE001'', quantity = 1\<rparr>"
  let ?rest = "[\<lparr>product_id = 3, sku = ''CABLE001'', quantity = 5\<rparr>]"
  have key: "?key = effective_key denying_env None three_items_request"
    by (simp add: effective_key_def three_items_request_def)
  have oid: "?oid = time_millis denying_env mod 2147483647"
    by (simp add: denying_env_def example_env_def)
  have fresh: "select_order_by_key empty_db ?key = None"
    by (simp add: select_order_by_key_def empty_db_def)
  have its: "items three_items_request = ?pre @ ?item # ?rest"
    by (simp add: three_items_request_def)
  have pre: "\<forall>j<length ?pre. granted denying_env ?key ?oid j (?pre ! j)"
    by (simp add: granted_def denying_env_def example_env_def float_of_int_def
        round_binary64_def Let_def)
  have r: "reserve_response denying_env (length ?pre) (reservation_data ?key ?oid ?item) =
           Response 409 ''insufficient stock'' None \<and> (409::int) \<noteq> 200"
    by (simp add: denying_env_def example_env_def)
  from reservation_failure_releases_earlier_grants [OF key oid fresh its pre] r
  have "place_order denying_env empty_db None three_items_request =
          (Inl (HTTPException 409
                  (''Failed to reserve inventory for product '' @
                   str_int (product_id ?item) @ '': '' @ ''insufficient stock'')),
           empty_db,
           map (reserve_post ?key ?oid) (?pre @ [?item]) @ map (release_post ?key ?oid) ?pre)"
    by blast
  then show ?thesis
    by (simp add: reserve_post_def release_post_def reservation_data_def str_int_def)
qed

text \<open>
  The claim as stated fails where the inventory service answers with an error status:
  a reply 503 "Service Unavailable" for the second item is surfaced as conflict (409),
  not as service unavailable.
\<close>

theorem inventory_error_reply_surfaces_as_conflict:
  "place_order erroring_env empty_db None three_items_request =
     (Inl (HTTPException 409
             ''Failed to reserve inventory for product 2: Service Unavailable''),
      empty_db,
      [(reserve_url, Reservation_data 1 2 ''k2_1'' ''1340435346''),
       (reserve_url, Reservation_data 2 1 ''k2_2'' ''1340435346''),
       (release_url, Release_data ''k2_1'' ''1340435346'')])"
proof -
  let ?key = "''k2''" and ?oid = "1340435346 :: int"
  let ?pre = "[\<lparr>product_id = 1, sku = ''LAPTOP001'', quantity = 2\<rparr>]"
  let ?item = "\<lparr>product_id = 2, sku = ''MOUSE001'', quantity = 1\<rparr>"
  let ?rest = "[\<lparr>product_id = 3, sku = ''CABLE001'', quantity = 5\<rparr>]"
  have key: "?key = effective_key erroring_env None three_items_request"
    by (simp add: effective_key_def three_items_request_def)
  have oid: "?oid = time_millis erroring_env mod 2147483647"
    by (simp add: erroring_env_def example_env_def)
  have fresh: "select_order_by_key empty_db ?key = None"
    by (simp add: select_order_by_key_def empty_db_def)
  have its: "items three_items_request = ?pre @ ?item # ?rest"
    by (simp add: three_items_request_def)
  have pre: "\<forall>j<length ?pre. granted erroring_env ?key ?oid j (?pre ! j)"
    by (simp add: granted_def erroring_env_def example_env_def float_of_int_def
        round_binary64_def Let_def)
  have r: "reserve_response erroring_env (length ?pre) (reservation_data ?key ?oid ?item) =
           Response 503 ''Service Unavailable'' None \<and> (503::int) \<noteq> 200"
    by (simp add: erroring_env_def example_env_def)
  from reservation_failure_outcome [OF key oid fresh its pre] r
  have "place_order erroring_env empty_db None three_items_request =
          (Inl (HTTPException 409
                  (''Failed to reserve inventory for product '' @
                   str_int (product_id ?item) @ '': '' @ ''Service Unavailable'')),
           empty_db,
           map (reserve_post ?key ?oid) (?pre @ [?item]) @ map (release_post ?key ?oid) ?pre)"
    by blast
  then show ?thesis
    by (simp add: reserve_post_def release_post_def reservation_data_def str_int_def)
qed

text \<open>
  C3. No execution of \<^verbatim>\<open>place_order\<close> takes the path of a payment that is not approved.
  The payment step is a mock: it assigns \<^verbatim>\<open>payment_success = True\<close> without asking the
  payment service, so the result of \<^verbatim>\<open>place_order\<close> is the same whatever that service
  would answer to the charge (first conjunct), and \<^verbatim>\<open>place_order\<close> never fails with
  status 402 (second conjunct). The branch \<^verbatim>\<open>if not payment_success\<close> of the source is
  still there: entered after a reservation loop that granted every item, it would post
  one release call for every reservation, fail with status 402 "Payment was declined"
  and leave the database as it was (third conjunct, about \<open>confirm_or_rollback\<close> with
  \<open>payment_success\<close> false, a value \<^verbatim>\<open>place_order\<close> never passes).
\<close>

theorem payment_is_never_declined:
  "place_order (env\<lparr>charge_response := answer\<rparr>) db header req =
     place_order env db header req \<and>
   (\<forall>msg. fst (place_order env db header req) \<noteq> Inl (HTTPException 402 msg)) \<and>
   (\<forall>st. reserve_inventory env key oid 0 its initial_state = Inr st \<longrightarrow>
      confirm_or_rollback env db req key oid st t False payment_id =
        (Inl (HTTPException 402 ''Payment was declined''), db,
         map (reserve_post key oid) its @ map (release_post key oid) its))"
proof (intro conjI allI impI)
  show "place_order (env\<lparr>charge_response := answer\<rparr>) db header req =
          place_order env db header req"
    by (rule place_order_charge_response)
next
  fix msg
  show "fst (place_order env db header req) \<noteq> Inl (HTTPException 402 msg)"
    using place_order_failure_status [of env db header req 402 msg] by auto
next
  fix st
  assume "reserve_inventory env key oid 0 its initial_state = Inr st"
  then show "confirm_or_rollback env db req key oid st t False payment_id =
        (Inl (HTTPException 402 ''Payment was declined''), db,
         map (reserve_post key oid) its @ map (release_post key oid) its)"
    by (rule declined_branch_outcome)
qed

theorem payment_is_never_declined_witness:
  "place_order (example_env\<lparr>charge_response := (\<lambda>pd. Declined)\<rparr>) empty_db None
     example_request =
     place_order example_env empty_db None example_request \<and>
   fst (place_order example_env empty_db None example_request) \<noteq>
     Inl (HTTPException 402 ''Payment was declined'') \<and>
   confirm_or_rollback example_env empty_db example_request ''k1'' 1340435346
     (after_granted ''k1'' 1340435346 (items example_request) initial_state)
     (calculate_totals example_env
        (total_amount (after_granted ''k1'' 1340435346 (items example_request) initial_state)))
     False ''pay_1700000000'' =
     (Inl (HTTPException 402 ''Payment was declined''), empty_db,
      [(reserve_url, Reservation_data 1 2 ''k1_1'' ''1340435346''),
       (reserve_url, Reservation_data 2 1 ''k1_2'' ''1340435346''),
       (release_url, Release_data ''k1_1'' ''1340435346''),
       (release_url, Release_data ''k1_2'' ''1340435346'')])"
proof -
  let ?st = "after_granted ''k1'' 1340435346 (items example_request) initial_state"
  note claim = payment_is_never_declined [where env = example_env
      and answer = "\<lambda>pd. Declined" and db = empty_db and header = None
      and req = example_request and key = "''k1''" and oid = 1340435346
      and its = "items example_request"
      and t = "calculate_totals example_env (total_amount ?st)"
      and payment_id = "''pay_1700000000''"]
  from claim have a: "place_order (example_env\<lparr>charge_response := (\<lambda>pd. Declined)\<rparr>) empty_db
      None example_request = place_order example_env empty_db None example_request"
    by blast
  from claim have b: "fst (place_order example_env empty_db None example_request) \<noteq>
      Inl (HTTPException 402 ''Payment was declined'')"
    by blast
  from claim example_reservation_phase
  have "confirm_or_rollback example_env empty_db example_request ''k1'' 1340435346 ?st
          (calculate_totals example_env (total_amount ?st)) False ''pay_1700000000'' =
        (Inl (HTTPException 402 ''Payment was declined''), empty_db,
         map (reserve_post ''k1'' 1340435346) (items example_request) @
         map (release_post ''k1'' 1340435346) (items example_request))"
    by blast
  then have c: "confirm_or_rollback example_env empty_db example_request ''k1'' 1340435346 ?st
          (calculate_totals example_env (total_amount ?st)) False ''pay_1700000000'' =
        (Inl (HTTPException 402 ''Payment was declined''), empty_db,
         [(reserve_url, Reservation_data 1 2 ''k1_1'' ''1340435346''),
          (reserve_url, Reservation_data 2 1 ''k1_2'' ''1340435346''),
          (release_url, Release_data ''k1_1'' ''1340435346''),
          (release_url, Release_data ''k1_2'' ''1340435346'')])"
    by (simp add: example_request_def reserve_post_def release_post_def reservation_data_def
        str_int_def)
  from a b c show ?thesis
    by (intro conjI)
qed

text \<open>
  A run in which the payment service would decline the charge: the order is persisted
  with status CONFIRMED and payment status PAID, nothing is released and no status 402
  is returned; the requests posted are the two reserve calls, the notification and the
  shipment.
\<close>

theorem declined_charge_is_still_confirmed:
  "charge_response declining_env
     (payment_data example_request ''k1'' 1340435346
        (calculate_totals declining_env
           (total_amount (after_granted ''k1'' 1340435346 (items example_request)
              initial_state)))) = Declined \<and>
   map order_status
     (Orders (fst (snd (place_order declining_env empty_db None example_request)))) =
     [''CONFIRMED''] \<and>
   map payment_status
     (Orders (fst (snd (place_order declining_env empty_db None example_request)))) =
     [''PAID''] \<and>
   map fst (snd (snd (place_order declining_env empty_db None example_request))) =
     [reserve_url, reserve_url, NOTIFICATION_SERVICE_URL @ ''/notifications'',
      SHIPMENT_SERVICE_URL @ ''/shipments'']"
proof -
  have "charge_response declining_env pd = Declined" for pd
    by (simp add: declining_env_def)
  with example_order_statuses example_posts_urls show ?thesis
    by (simp only: declining_place_order)
qed



text \<open>
  C5. For every successful \<^verbatim>\<open>place_order\<close>, in Python's float arithmetic: the subtotal is
  the sum over the order's lines of unit price times quantity (accumulated line by line
  from \<^verbatim>\<open>0.0\<close>), the tax is the subtotal times \<^verbatim>\<open>0.05\<close>, the shipping amount is
  \<^verbatim>\<open>10.00\<close> and the total is subtotal plus tax plus shipping; the new row of \<^verbatim>\<open>Orders\<close>
  stores these four values. For the items with quantities 2 and 1 the four values are
  the floats written \<^verbatim>\<open>89.97\<close>, \<^verbatim>\<open>4.4985\<close>, \<^verbatim>\<open>10.00\<close> and \<^verbatim>\<open>104.4685\<close>.
\<close>

theorem totals_of_placed_order:
  assumes "place_order env db header req = (Inr (Order_placed msg po), db', ps)"
  shows "resp_subtotal po = sum_line_amounts (resp_items po) \<and>
         resp_tax_amount po = float_mul (resp_subtotal po) (float_literal 5 100) \<and>
         resp_shipping_amount po = float_literal 1000 100 \<and>
         resp_order_total po =
           float_add (float_add (resp_subtotal po) (resp_tax_amount po))
             (resp_shipping_amount po) \<and>
         (\<exists>row. Orders db' = Orders db @ [row] \<and>
                subtotal row = resp_subtotal po \<and>
                tax_amount row = resp_tax_amount po \<and>
                shipping_amount row = resp_shipping_amount po \<and>
                order_total row = resp_order_total po)"
proof -
  let ?key = "effective_key env header req"
  let ?oid = "time_millis env mod 2147483647"
  let ?st = "after_granted ?key ?oid (items req) initial_state"
  from assms have "fst (place_order env db header req) = Inr (Order_placed msg po)"
    by simp
  from place_order_placed [OF this] assms
  have po: "po = placed_response env req ?key ?oid ?st"
    and db': "db' = committed env db req ?key ?oid ?st"
    by (simp_all add: Let_def)
  have sub: "resp_subtotal po = sum_line_amounts (resp_items po)"
    by (simp add: po placed_response_def Let_def calculate_totals_def
        total_amount_after_granted)
  have rest: "resp_tax_amount po = float_mul (resp_subtotal po) (float_literal 5 100)"
    "resp_shipping_amount po = float_literal 1000 100"
    "resp_order_total po =
       float_add (float_add (resp_subtotal po) (resp_tax_amount po)) (resp_shipping_amount po)"
    by (simp_all add: po placed_response_def Let_def calculate_totals_def TAX_RATE_def
        SHIPPING_COST_def)
  let ?row = "new_order_row env req ?key ?oid (calculate_totals env (total_amount ?st))"
  have "Orders db' = Orders db @ [?row] \<and>
        subtotal ?row = resp_subtotal po \<and>
        tax_amount ?row = resp_tax_amount po \<and>
        shipping_amount ?row = resp_shipping_amount po \<and>
        order_total ?row = resp_order_total po"
    by (simp add: db' po committed_def placed_response_def Let_def new_order_row_def)
  then have "\<exists>row. Orders db' = Orders db @ [row] \<and>
                subtotal row = resp_subtotal po \<and>
                tax_amount row = resp_tax_amount po \<and>
                shipping_amount row = resp_shipping_amount po \<and>
                order_total row = resp_order_total po"
    by blast
  with sub rest show ?thesis
    by simp
qed

theorem totals_of_placed_order_witness:
  "map_option resp_subtotal
     (placed_of (place_order example_env empty_db None example_request)) =
     Some (float_literal 8997 100) \<and>
   map_option resp_tax_amount
     (placed_of (place_order example_env empty_db None example_request)) =
     Some (float_literal 44985 10000) \<and>
   map_option resp_shipping_amount
     (placed_of (place_order example_env empty_db None example_request)) =
     Some (float_literal 1000 100) \<and>
   map_option resp_order_total
     (placed_of (place_order example_env empty_db None example_request)) =
     Some (float_literal 1044685 10000)"
proof -
  let ?st = "after_granted ''k1'' 1340435346 (items example_request) initial_state"
  let ?po = "placed_response example_env example_request ''k1'' 1340435346 ?st"
  let ?db = "committed example_env empty_db example_request ''k1'' 1340435346 ?st"
  let ?ps = "posts ?st @ [notification_post example_request 1340435346,
               shipment_post example_request 1340435346 (order_items ?st)]"
  have run: "place_order example_env empty_db None example_request =
          (Inr (Order_placed ''Order placed successfully'' ?po), ?db, ?ps)"
    by (simp add: example_place_order Let_def)
  have its: "resp_items ?po = order_items ?st"
    by (simp add: placed_response_def Let_def)
  from totals_of_placed_order [OF run]
  have "resp_subtotal ?po = sum_line_amounts (resp_items ?po)"
    and "resp_tax_amount ?po = float_mul (resp_subtotal ?po) (float_literal 5 100)"
    and "resp_shipping_amount ?po = float_literal 1000 100"
    and "resp_order_total ?po =
           float_add (float_add (resp_subtotal ?po) (resp_tax_amount ?po))
             (resp_shipping_amount ?po)"
    by simp_all
  then have "resp_subtotal ?po = float_literal 8997 100"
    and "resp_tax_amount ?po = float_literal 44985 10000"
    and "resp_shipping_amount ?po = float_literal 1000 100"
    and "resp_order_total ?po = float_literal 1044685 10000"
    by (simp_all only: its example_items example_subtotal example_tax example_total
        literal_89_97 literal_4_4985 literal_104_4685)
  then show ?thesis
    by (simp add: placed_of_def run)
qed

text \<open>
  C6. The totals signature is the SHA-256 hex digest of the JSON text of the four
  values with the keys in sorted order, that is \<^verbatim>\<open>shipping\<close>, \<^verbatim>\<open>subtotal\<close>, \<^verbatim>\<open>tax\<close>,
  \<^verbatim>\<open>total\<close>, separated by a comma and a space, each key in double quotes and followed by
  a colon and a space; it depends on nothing but these four values. The row of
  \<^verbatim>\<open>Orders\<close> that a successful \<^verbatim>\<open>place_order\<close> adds stores a signature equal to the one
  recomputed from the four monetary fields stored in the same row; and if every stored
  order has this property before \<^verbatim>\<open>place_order\<close> or \<^verbatim>\<open>cancel_order\<close>, every stored order
  has it afterwards. The hash function and the formatting of a float are those of the
  environment, the same at signing and at recomputation, and the store is taken to keep
  the floats it is given.
\<close>

theorem stored_signature_is_recomputable:
  "sign_totals env sub tax ship tot =
     sha256_hexdigest env
       (''{'' @ [CHR 0x22] @ ''shipping'' @ [CHR 0x22] @ '': '' @ json_float env ship @ '', '' @
        [CHR 0x22] @ ''subtotal'' @ [CHR 0x22] @ '': '' @ json_float env sub @ '', '' @
        [CHR 0x22] @ ''tax'' @ [CHR 0x22] @ '': '' @ json_float env tax @ '', '' @
        [CHR 0x22] @ ''total'' @ [CHR 0x22] @ '': '' @ json_float env tot @ ''}'') \<and>
   (\<forall>msg po. fst (place_order env db header req) = Inr (Order_placed msg po) \<longrightarrow>
      (\<exists>row. Orders (fst (snd (place_order env db header req))) = Orders db @ [row] \<and>
             order_id row = resp_order_id po \<and>
             totals_signature row =
               sha256_hexdigest env
                 (canonical_encoding env (subtotal row) (tax_amount row)
                    (shipping_amount row) (order_total row)))) \<and>
   ((\<forall>r\<in>set (Orders db). totals_signature r = recompute_signature env r) \<longrightarrow>
    (\<forall>r\<in>set (Orders (fst (snd (place_order env db header req)))).
        totals_signature r = recompute_signature env r) \<and>
    (\<forall>r\<in>set (Orders (fst (snd (cancel_order env db oid)))).
        totals_signature r = recompute_signature env r))"
proof (intro conjI allI impI)
  show "sign_totals env sub tax ship tot =
     sha256_hexdigest env
       (''{'' @ [CHR 0x22] @ ''shipping'' @ [CHR 0x22] @ '': '' @ json_float env ship @ '', '' @
        [CHR 0x22] @ ''subtotal'' @ [CHR 0x22] @ '': '' @ json_float env sub @ '', '' @
        [CHR 0x22] @ ''tax'' @ [CHR 0x22] @ '': '' @ json_float env tax @ '', '' @
        [CHR 0x22] @ ''total'' @ [CHR 0x22] @ '': '' @ json_float env tot @ ''}'')"
    using sign_totals_canonical [of env sub tax ship tot]
    by (simp only: canonical_encoding_def)
next
  fix msg po
  assume "fst (place_order env db header req) = Inr (Order_placed msg po)"
  then show "\<exists>row. Orders (fst (snd (place_order env db header req))) = Orders db @ [row] \<and>
             order_id row = resp_order_id po \<and>
             totals_signature row =
               sha256_hexdigest env
                 (canonical_encoding env (subtotal row) (tax_amount row)
                    (shipping_amount row) (order_total row))"
    by (rule placed_order_signature)
next
  assume "\<forall>r\<in>set (Orders db). totals_signature r = recompute_signature env r"
  then have v: "\<forall>r\<in>set (Orders db). signature_valid env r"
    by (simp add: signature_valid_def)
  from place_order_keeps_signatures_valid [OF v, of header req]
  show "\<forall>r\<in>set (Orders (fst (snd (place_order env db header req)))).
        totals_signature r = recompute_signature env r"
    by (simp add: signature_valid_def)
  from cancel_order_keeps_signatures_valid [OF v, of oid]
  show "\<forall>r\<in>set (Orders (fst (snd (cancel_order env db oid)))).
        totals_signature r = recompute_signature env r"
    by (simp add: signature_valid_def)
qed

theorem stored_signature_is_recomputable_witness:
  "sign_totals printing_env (float_literal 8997 100) (float_literal 44985 10000)
     (float_literal 1000 100) (float_literal 1044685 10000) =
     ''#{'' @ [CHR 0x22] @ ''shipping'' @ [CHR 0x22] @ '': 10.0, '' @
     [CHR 0x22] @ ''subtotal'' @ [CHR 0x22] @ '': 89.97, '' @
     [CHR 0x22] @ ''tax'' @ [CHR 0x22] @ '': 4.4985, '' @
     [CHR 0x22] @ ''total'' @ [CHR 0x22] @ '': 104.4685}'' \<and>
   map (recompute_signature printing_env)
     (Orders (fst (snd (place_order printing_env signed_db None example_request)))) =
     [''#{'' @ [CHR 0x22] @ ''shipping'' @ [CHR 0x22] @ '': 10.0, '' @
      [CHR 0x22] @ ''subtotal'' @ [CHR 0x22] @ '': 0.0, '' @
      [CHR 0x22] @ ''tax'' @ [CHR 0x22] @ '': 0.0, '' @
      [CHR 0x22] @ ''total'' @ [CHR 0x22] @ '': 10.0}'',
      ''#{'' @ [CHR 0x22] @ ''shipping'' @ [CHR 0x22] @ '': 10.0, '' @
      [CHR 0x22] @ ''subtotal'' @ [CHR 0x22] @ '': 89.97, '' @
      [CHR 0x22] @ ''tax'' @ [CHR 0x22] @ '': 4.4985, '' @
      [CHR 0x22] @ ''total'' @ [CHR 0x22] @ '': 104.4685}''] \<and>
   map totals_signature
     (Orders (fst (snd (place_order printing_env signed_db None example_request)))) =
     map (recompute_signature printing_env)
       (Orders (fst (snd (place_order printing_env signed_db None example_request)))) \<and>
   map order_status (Orders (fst (snd (cancel_order printing_env signed_db 41)))) =
     [''CANCELLED''] \<and>
   map (recompute_signature printing_env)
     (Orders (fst (snd (cancel_order printing_env signed_db 41)))) =
     [''#{'' @ [CHR 0x22] @ ''shipping'' @ [CHR 0x22] @ '': 10.0, '' @
      [CHR 0x22] @ ''subtotal'' @ [CHR 0x22] @ '': 0.0, '' @
      [CHR 0x22] @ ''tax'' @ [CHR 0x22] @ '': 0.0, '' @
      [CHR 0x22] @ ''total'' @ [CHR 0x22] @ '': 10.0}'']"
proof -
  note claim = stored_signature_is_recomputable [where env = printing_env and db = signed_db
      and header = None and req = example_request and oid = 41
      and sub = "float_literal 8997 100" and tax = "float_literal 44985 10000"
      and ship = "float_literal 1000 100" and tot = "float_literal 1044685 10000"]
  let ?placed = "Orders (fst (snd (place_order printing_env signed_db None example_request)))"
  let ?cancelled = "Orders (fst (snd (cancel_order printing_env signed_db 41)))"
  from claim have "sign_totals printing_env (float_literal 8997 100)
      (float_literal 44985 10000) (float_literal 1000 100) (float_literal 1044685 10000) =
     sha256_hexdigest printing_env
       (''{'' @ [CHR 0x22] @ ''shipping'' @ [CHR 0x22] @ '': '' @
        json_float printing_env (float_literal 1000 100) @ '', '' @
        [CHR 0x22] @ ''subtotal'' @ [CHR 0x22] @ '': '' @
        json_float printing_env (float_literal 8997 100) @ '', '' @
        [CHR 0x22] @ ''tax'' @ [CHR 0x22] @ '': '' @
        json_float printing_env (float_literal 44985 10000) @ '', '' @
        [CHR 0x22] @ ''total'' @ [CHR 0x22] @ '': '' @
        json_float printing_env (float_literal 1044685 10000) @ ''}'')"
    by blast
  then have a: "sign_totals printing_env (float_literal 8997 100)
      (float_literal 44985 10000) (float_literal 1000 100) (float_literal 1044685 10000) =
     ''#{'' @ [CHR 0x22] @ ''shipping'' @ [CHR 0x22] @ '': 10.0, '' @
     [CHR 0x22] @ ''subtotal'' @ [CHR 0x22] @ '': 89.97, '' @
     [CHR 0x22] @ ''tax'' @ [CHR 0x22] @ '': 4.4985, '' @
     [CHR 0x22] @ ''total'' @ [CHR 0x22] @ '': 104.4685}''"
    by (simp add: printing_env_functions example_repr_values)
  from claim signed_db_valid
  have "\<forall>r\<in>set ?placed. totals_signature r = recompute_signature printing_env r"
    and "\<forall>r\<in>set ?cancelled. totals_signature r = recompute_signature printing_env r"
    by blast+
  then have c: "map totals_signature ?placed = map (recompute_signature printing_env) ?placed"
    and d: "map totals_signature ?cancelled =
            map (recompute_signature printing_env) ?cancelled"
    by simp_all
  from c printing_signature have b: "map (recompute_signature printing_env) ?placed =
     [''#{'' @ [CHR 0x22] @ ''shipping'' @ [CHR 0x22] @ '': 10.0, '' @
      [CHR 0x22] @ ''subtotal'' @ [CHR 0x22] @ '': 0.0, '' @
      [CHR 0x22] @ ''tax'' @ [CHR 0x22] @ '': 0.0, '' @
      [CHR 0x22] @ ''total'' @ [CHR 0x22] @ '': 10.0}'',
      ''#{'' @ [CHR 0x22] @ ''shipping'' @ [CHR 0x22] @ '': 10.0, '' @
      [CHR 0x22] @ ''subtotal'' @ [CHR 0x22] @ '': 89.97, '' @
      [CHR 0x22] @ ''tax'' @ [CHR 0x22] @ '': 4.4985, '' @
      [CHR 0x22] @ ''total'' @ [CHR 0x22] @ '': 104.4685}'']"
    by (simp only:)
  from cancel_signed_order
  have e: "map order_status ?cancelled = [''CANCELLED'']"
    and "map totals_signature ?cancelled =
     [''#{'' @ [CHR 0x22] @ ''shipping'' @ [CHR 0x22] @ '': 10.0, '' @
      [CHR 0x22] @ ''subtotal'' @ [CHR 0x22] @ '': 0.0, '' @
      [CHR 0x22] @ ''tax'' @ [CHR 0x22] @ '': 0.0, '' @
      [CHR 0x22] @ ''total'' @ [CHR 0x22] @ '': 10.0}'']"
    by blast+
  with d have f: "map (recompute_signature printing_env) ?cancelled =
     [''#{'' @ [CHR 0x22] @ ''shipping'' @ [CHR 0x22] @ '': 10.0, '' @
      [CHR 0x22] @ ''subtotal'' @ [CHR 0x22] @ '': 0.0, '' @
      [CHR 0x22] @ ''tax'' @ [CHR 0x22] @ '': 0.0, '' @
      [CHR 0x22] @ ''total'' @ [CHR 0x22] @ '': 10.0}'']"
    by (simp only:)
  from a b c e f show ?thesis
    by (intro conjI)
qed

text \<open>
  C7. No execution of \<^verbatim>\<open>place_order\<close> posts a request to the payment service: every
  request it posts goes to the reserve or the release endpoint of the inventory
  service, to the notification service or to the shipment service. The dictionary
  \<^verbatim>\<open>payment_data\<close> is built with the order id, the total with tax and shipping, the
  customer id and the key \<^verbatim>\<open>payment_\<close> followed by the order's idempotency key, but it is
  not sent; the payment step yields success and the payment id \<^verbatim>\<open>pay_\<close> followed by the
  clock's seconds, whatever the dictionary holds; and the result of \<^verbatim>\<open>place_order\<close> is
  the same whatever the payment service would answer to a charge.
\<close>

theorem no_charge_is_posted:
  "filter to_payment_service (snd (snd (place_order env db header req))) = [] \<and>
   fst ` set (snd (snd (place_order env db header req))) \<subseteq>
     {''http://inventoryservice:3000/v1/inventory/reserve'',
      ''http://inventoryservice:3000/v1/inventory/release'',
      ''http://notification_service:8080/v1/notifications'',
      ''http://shipment_service:8001/v1/shipments''} \<and>
   payment_data req key oid t =
     \<lparr>pay_order_id = oid, pay_amount = tot_total_with_tax_shipping t,
      pay_customer_id = req_customer_id req, pay_idempotency_key = ''payment_'' @ key\<rparr> \<and>
   process_payment env pd = (True, ''pay_'' @ str_int (time_seconds env)) \<and>
   place_order (env\<lparr>charge_response := answer\<rparr>) db header req =
     place_order env db header req"
proof (intro conjI)
  show "filter to_payment_service (snd (snd (place_order env db header req))) = []"
    by (rule place_order_posts_no_charge)
  show "fst ` set (snd (snd (place_order env db header req))) \<subseteq>
     {''http://inventoryservice:3000/v1/inventory/reserve'',
      ''http://inventoryservice:3000/v1/inventory/release'',
      ''http://notification_service:8080/v1/notifications'',
      ''http://shipment_service:8001/v1/shipments''}"
    using place_order_urls [of env db header req] by (simp only: service_urls_explicit)
  show "payment_data req key oid t =
     \<lparr>pay_order_id = oid, pay_amount = tot_total_with_tax_shipping t,
      pay_customer_id = req_customer_id req, pay_idempotency_key = ''payment_'' @ key\<rparr>"
    by (simp add: payment_data_def)
  show "process_payment env pd = (True, ''pay_'' @ str_int (time_seconds env))"
    by (simp add: process_payment_def)
  show "place_order (env\<lparr>charge_response := answer\<rparr>) db header req =
     place_order env db header req"
    by (rule place_order_charge_response)
qed

theorem no_charge_is_posted_witness:
  "filter to_payment_service
     (snd (snd (place_order example_env empty_db None example_request))) = [] \<and>
   fst ` set (snd (snd (place_order example_env empty_db None example_request))) \<subseteq>
     {''http://inventoryservice:3000/v1/inventory/reserve'',
      ''http://inventoryservice:3000/v1/inventory/release'',
      ''http://notification_service:8080/v1/notifications'',
      ''http://shipment_service:8001/v1/shipments''} \<and>
   payment_data example_request ''k1'' 1340435346
     \<lparr>tot_subtotal = float_literal 8997 100, tot_tax_amount = float_literal 44985 10000,
      tot_shipping_amount = float_literal 1000 100,
      tot_total_with_tax_shipping = float_literal 1044685 10000,
      tot_totals_signature = ''s''\<rparr> =
     \<lparr>pay_order_id = 1340435346, pay_amount = float_literal 1044685 10000,
      pay_customer_id = 7, pay_idempotency_key = ''payment_k1''\<rparr> \<and>
   process_payment example_env
     \<lparr>pay_order_id = 1340435346, pay_amount = float_literal 1044685 10000,
      pay_customer_id = 7, pay_idempotency_key = ''payment_k1''\<rparr> =
     (True, ''pay_1700000000'') \<and>
   place_order (example_env\<lparr>charge_response := (\<lambda>pd. Charge_error)\<rparr>) empty_db None
     example_request =
     place_order example_env empty_db None example_request"
proof -
  note claim = no_charge_is_posted [where env = example_env and db = empty_db
      and header = None and req = example_request and key = "''k1''" and oid = 1340435346
      and t = "\<lparr>tot_subtotal = float_literal 8997 100,
                 tot_tax_amount = float_literal 44985 10000,
                 tot_shipping_amount = float_literal 1000 100,
                 tot_total_with_tax_shipping = float_literal 1044685 10000,
                 tot_totals_signature = ''s''\<rparr>"
      and pd = "\<lparr>pay_order_id = 1340435346, pay_amount = float_literal 1044685 10000,
                  pay_customer_id = 7, pay_idempotency_key = ''payment_k1''\<rparr>"
      and answer = "\<lambda>pd. Charge_error"]
  have s: "str_int (time_seconds example_env) = ''1700000000''"
    by (simp add: example_env_def str_int_def)
  have r: "req_customer_id example_request = 7"
    by (simp add: example_request_def)
  from claim show ?thesis
    by (simp add: s r)
qed

text \<open>
  A run that completes the reservation phase and ends with a CONFIRMED order: the four
  requests posted are two reserve calls, the notification and the shipment request, and
  none of them goes to the payment service.
\<close>

theorem confirmed_order_without_charge_call:
  "snd (snd (place_order example_env empty_db None example_request)) =
     [(''http://inventoryservice:3000/v1/inventory/reserve'',
       Reservation_data 1 2 ''k1_1'' ''1340435346''),
      (''http://inventoryservice:3000/v1/inventory/reserve'',
       Reservation_data 2 1 ''k1_2'' ''1340435346''),
      (''http://notification_service:8080/v1/notifications'',
       Notification_data ''ORDER_CONFIRMED'' 7 1340435346
         ''Your order #1340435346 has been confirmed and payment processed successfully.''),
      (''http://shipment_service:8001/v1/shipments'',
       Shipment_data 1340435346 7
         [\<lparr>item_product_id = 1, item_sku = ''LAPTOP001'', item_quantity = 2,
           item_unit_price = float_literal 2999 100\<rparr>,
          \<lparr>item_product_id = 2, item_sku = ''MOUSE001'', item_quantity = 1,
           item_unit_price = float_literal 2999 100\<rparr>])] \<and>
   length (filter to_payment_service
     (snd (snd (place_order example_env empty_db None example_request)))) = 0 \<and>
   map order_status (Orders (fst (snd (place_order example_env empty_db None example_request))))
     = [''CONFIRMED'']"
proof -
  have "length (filter to_payment_service
     (snd (snd (place_order example_env empty_db None example_request)))) = 0"
    by (simp only: place_order_posts_no_charge list.size)
  with example_posts example_confirmed show ?thesis
    by (intro conjI)
qed

text \<open>
  C8. \<^verbatim>\<open>place_order\<close> does not validate the item list. It never fails with status 400.
  A request with an empty item list and a key not yet stored, with no database fault,
  is answered with a placed order: no reserve call is made, the order is committed with
  status CONFIRMED, subtotal and tax \<^verbatim>\<open>0.0\<close>, shipping and total \<^verbatim>\<open>10.00\<close> and no line, and
  the notification and the shipment request are posted. For a non-empty list with a key
  not yet stored the first request posted is the reserve call for the first item,
  carrying the item's quantity whatever its sign.
\<close>

theorem items_are_not_validated:
  "(\<forall>d. fst (place_order env db header req) \<noteq> Inl (HTTPException 400 d)) \<and>
   (items req = [] \<and> select_order_by_key db (effective_key env header req) = None \<and>
    db_fault env = None \<longrightarrow>
      place_order env db header req =
        (Inr (Order_placed ''Order placed successfully''
           \<lparr>resp_order_id = time_millis env mod 2147483647,
            resp_customer_id = req_customer_id req,
            resp_order_status = ''CONFIRMED'', resp_payment_status = ''PAID'',
            resp_subtotal = Finite 0 0, resp_tax_amount = Finite 0 0,
            resp_shipping_amount = float_literal 1000 100,
            resp_order_total = float_literal 1000 100,
            resp_payment_id = ''pay_'' @ str_int (time_seconds env),
            resp_idempotency_key = effective_key env header req,
            resp_created_at = now_response env, resp_items = []\<rparr>),
         \<lparr>Orders = Orders db @
            [\<lparr>order_id = time_millis env mod 2147483647,
              customer_id = req_customer_id req,
              order_status = ''CONFIRMED'', payment_status = ''PAID'',
              order_total = float_literal 1000 100, subtotal = Finite 0 0,
              tax_amount = Finite 0 0, shipping_amount = float_literal 1000 100,
              totals_signature =
                sign_totals env (Finite 0 0) (Finite 0 0) (float_literal 1000 100)
                  (float_literal 1000 100),
              idempotency_key = Some (effective_key env header req),
              created_at = now_insert env\<rparr>],
          Order_Items = Order_Items db\<rparr>,
         [(NOTIFICATION_SERVICE_URL @ ''/notifications'',
           Notification_data ''ORDER_CONFIRMED'' (req_customer_id req)
             (time_millis env mod 2147483647)
             (''Your order #'' @ str_int (time_millis env mod 2147483647) @
              '' has been confirmed and payment processed successfully.'')),
          (SHIPMENT_SERVICE_URL @ ''/shipments'',
           Shipment_data (time_millis env mod 2147483647) (req_customer_id req) [])])) \<and>
   (\<forall>item rest.
      items req = item # rest \<and>
      select_order_by_key db (effective_key env header req) = None \<longrightarrow>
      hd (snd (snd (place_order env db header req))) =
        (INVENTORY_SERVICE_URL @ ''/inventory/reserve'',
         Reservation_data (product_id item) (quantity item)
           (effective_key env header req @ ''_'' @ str_int (product_id item))
           (str_int (time_millis env mod 2147483647))))"
proof (intro conjI allI impI)
  fix d
  show "fst (place_order env db header req) \<noteq> Inl (HTTPException 400 d)"
    by (rule place_order_never_400)
next
  assume "items req = [] \<and> select_order_by_key db (effective_key env header req) = None \<and>
    db_fault env = None"
  then show "place_order env db header req =
        (Inr (Order_placed ''Order placed successfully''
           \<lparr>resp_order_id = time_millis env mod 2147483647,
            resp_customer_id = req_customer_id req,
            resp_order_status = ''CONFIRMED'', resp_payment_status = ''PAID'',
            resp_subtotal = Finite 0 0, resp_tax_amount = Finite 0 0,
            resp_shipping_amount = float_literal 1000 100,
            resp_order_total = float_literal 1000 100,
            resp_payment_id = ''pay_'' @ str_int (time_seconds env),
            resp_idempotency_key = effective_key env header req,
            resp_created_at = now_response env, resp_items = []\<rparr>),
         \<lparr>Orders = Orders db @
            [\<lparr>order_id = time_millis env mod 2147483647,
              customer_id = req_customer_id req,
              order_status = ''CONFIRMED'', payment_status = ''PAID'',
              order_total = float_literal 1000 100, subtotal = Finite 0 0,
              tax_amount = Finite 0 0, shipping_amount = float_literal 1000 100,
              totals_signature =
                sign_totals env (Finite 0 0) (Finite 0 0) (float_literal 1000 100)
                  (float_literal 1000 100),
              idempotency_key = Some (effective_key env header req),
              created_at = now_insert env\<rparr>],
          Order_Items = Order_Items db\<rparr>,
         [(NOTIFICATION_SERVICE_URL @ ''/notifications'',
           Notification_data ''ORDER_CONFIRMED'' (req_customer_id req)
             (time_millis env mod 2147483647)
             (''Your order #'' @ str_int (time_millis env mod 2147483647) @
              '' has been confirmed and payment processed successfully.'')),
          (SHIPMENT_SERVICE_URL @ ''/shipments'',
           Shipment_data (time_millis env mod 2147483647) (req_customer_id req) [])])"
    using place_order_empty_items by blast
next
  fix item rest
  assume "items req = item # rest \<and>
      select_order_by_key db (effective_key env header req) = None"
  then have "hd (snd (snd (place_order env db header req))) =
           (reserve_url,
            reservation_data (effective_key env header req) (time_millis env mod 2147483647)
              item)"
    using place_order_first_post by blast
  then show "hd (snd (snd (place_order env db header req))) =
        (INVENTORY_SERVICE_URL @ ''/inventory/reserve'',
         Reservation_data (product_id item) (quantity item)
           (effective_key env header req @ ''_'' @ str_int (product_id item))
           (str_int (time_millis env mod 2147483647)))"
    by (simp add: reserve_url_def reservation_data_def)
qed

theorem items_are_not_validated_witness:
  "fst (place_order example_env empty_db None empty_request) \<noteq>
     Inl (HTTPException 400 ''Bad request'') \<and>
   fst (place_order example_env empty_db None empty_request) =
     Inr (Order_placed ''Order placed successfully''
        \<lparr>resp_order_id = 1340435346, resp_customer_id = 7,
         resp_order_status = ''CONFIRMED'', resp_payment_status = ''PAID'',
         resp_subtotal = Finite 0 0, resp_tax_amount = Finite 0 0,
         resp_shipping_amount = float_literal 1000 100,
         resp_order_total = float_literal 1000 100,
         resp_payment_id = ''pay_1700000000'', resp_idempotency_key = ''k0'',
         resp_created_at = ''t1'', resp_items = []\<rparr>) \<and>
   map order_status (Orders (fst (snd (place_order example_env empty_db None empty_request))))
     = [''CONFIRMED''] \<and>
   snd (snd (place_order example_env empty_db None empty_request)) =
     [(''http://notification_service:8080/v1/notifications'',
       Notification_data ''ORDER_CONFIRMED'' 7 1340435346
         ''Your order #1340435346 has been confirmed and payment processed successfully.''),
      (''http://shipment_service:8001/v1/shipments'', Shipment_data 1340435346 7 [])] \<and>
   hd (snd (snd (place_order example_env empty_db None negative_request))) =
     (''http://inventoryservice:3000/v1/inventory/reserve'',
      Reservation_data 4 (- 1) ''k4_4'' ''1340435346'')"
proof -
  note claim = items_are_not_validated
  have i: "items empty_request = []"
    by (simp add: empty_request_def)
  have n: "items negative_request = [\<lparr>product_id = 4, sku = ''DESK001'', quantity = - 1\<rparr>]"
    by (simp add: negative_request_def)
  have c: "req_customer_id empty_request = 7"
    by (simp add: empty_request_def)
  have t: "time_seconds example_env = 1700000000" "now_response example_env = ''t1''"
    "now_insert example_env = ''t0''"
    by (simp_all add: example_env_def)
  from claim [of example_env empty_db None empty_request]
  have a: "fst (place_order example_env empty_db None empty_request) \<noteq>
     Inl (HTTPException 400 ''Bad request'')"
    by blast
  from claim [of example_env empty_db None empty_request] i example_fresh example_no_fault
  have "place_order example_env empty_db None empty_request =
        (Inr (Order_placed ''Order placed successfully''
           \<lparr>resp_order_id = time_millis example_env mod 2147483647,
            resp_customer_id = req_customer_id empty_request,
            resp_order_status = ''CONFIRMED'', resp_payment_status = ''PAID'',
            resp_subtotal = Finite 0 0, resp_tax_amount = Finite 0 0,
            resp_shipping_amount = float_literal 1000 100,
            resp_order_total = float_literal 1000 100,
            resp_payment_id = ''pay_'' @ str_int (time_seconds example_env),
            resp_idempotency_key = effective_key example_env None empty_request,
            resp_created_at = now_response example_env, resp_items = []\<rparr>),
         \<lparr>Orders = Orders empty_db @
            [\<lparr>order_id = time_millis example_env mod 2147483647,
              customer_id = req_customer_id empty_request,
              order_status = ''CONFIRMED'', payment_status = ''PAID'',
              order_total = float_literal 1000 100, subtotal = Finite 0 0,
              tax_amount = Finite 0 0, shipping_amount = float_literal 1000 100,
              totals_signature =
                sign_totals example_env (Finite 0 0) (Finite 0 0) (float_literal 1000 100)
                  (float_literal 1000 100),
              idempotency_key = Some (effective_key example_env None empty_request),
              created_at = now_insert example_env\<rparr>],
          Order_Items = Order_Items empty_db\<rparr>,
         [(NOTIFICATION_SERVICE_URL @ ''/notifications'',
           Notification_data ''ORDER_CONFIRMED'' (req_customer_id empty_request)
             (time_millis example_env mod 2147483647)
             (''Your order #'' @ str_int (time_millis example_env mod 2147483647) @
              '' has been confirmed and payment processed successfully.'')),
          (SHIPMENT_SERVICE_URL @ ''/shipments'',
           Shipment_data (time_millis example_env mod 2147483647)
             (req_customer_id empty_request) [])])"
    by blast
  then have b: "fst (place_order example_env empty_db None empty_request) =
     Inr (Order_placed ''Order placed successfully''
        \<lparr>resp_order_id = 1340435346, resp_customer_id = 7,
         resp_order_status = ''CONFIRMED'', resp_payment_status = ''PAID'',
         resp_subtotal = Finite 0 0, resp_tax_amount = Finite 0 0,
         resp_shipping_amount = float_literal 1000 100,
         resp_order_total = float_literal 1000 100,
         resp_payment_id = ''pay_1700000000'', resp_idempotency_key = ''k0'',
         resp_created_at = ''t1'', resp_items = []\<rparr>)"
    and "map order_status
           (Orders (fst (snd (place_order example_env empty_db None empty_request)))) =
         [''CONFIRMED'']"
    and "snd (snd (place_order example_env empty_db None empty_request)) =
     [(''http://notification_service:8080/v1/notifications'',
       Notification_data ''ORDER_CONFIRMED'' 7 1340435346
         ''Your order #1340435346 has been confirmed and payment processed successfully.''),
      (''http://shipment_service:8001/v1/shipments'', Shipment_data 1340435346 7 [])]"
    by (simp_all add: empty_key example_oid c t empty_db_def NOTIFICATION_SERVICE_URL_def
        SHIPMENT_SERVICE_URL_def str_int_def)
  moreover
  from claim [of example_env empty_db None negative_request] n example_fresh
  have "hd (snd (snd (place_order example_env empty_db None negative_request))) =
        (INVENTORY_SERVICE_URL @ ''/inventory/reserve'',
         Reservation_data
           (product_id \<lparr>product_id = 4, sku = ''DESK001'', quantity = - 1\<rparr>)
           (quantity \<lparr>product_id = 4, sku = ''DESK001'', quantity = - 1\<rparr>)
           (effective_key example_env None negative_request @ ''_'' @
            str_int (product_id \<lparr>product_id = 4, sku = ''DESK001'', quantity = - 1\<rparr>))
           (str_int (time_millis example_env mod 2147483647)))"
    by blast
  then have "hd (snd (snd (place_order example_env empty_db None negative_request))) =
     (''http://inventoryservice:3000/v1/inventory/reserve'',
      Reservation_data 4 (- 1) ''k4_4'' ''1340435346'')"
    by (simp add: negative_key example_oid INVENTORY_SERVICE_URL_def str_int_def)
  ultimately show ?thesis
    using a by (intro conjI)
qed

text \<open>
  An empty request is confirmed with total \<^verbatim>\<open>10.00\<close>; a request for quantity \<open>-1\<close> is sent
  to the inventory service and, granted there, is committed as a CONFIRMED order with a
  line of quantity \<open>-1\<close>.
\<close>

theorem empty_and_negative_requests_are_confirmed:
  "place_order example_env empty_db None empty_request =
     (Inr (Order_placed ''Order placed successfully''
        \<lparr>resp_order_id = 1340435346, resp_customer_id = 7,
         resp_order_status = ''CONFIRMED'', resp_payment_status = ''PAID'',
         resp_subtotal = Finite 0 0, resp_tax_amount = Finite 0 0,
         resp_shipping_amount = float_literal 1000 100,
         resp_order_total = float_literal 1000 100,
         resp_payment_id = ''pay_1700000000'', resp_idempotency_key = ''k0'',
         resp_created_at = ''t1'', resp_items = []\<rparr>),
      \<lparr>Orders =
         [\<lparr>order_id = 1340435346, customer_id = 7,
           order_status = ''CONFIRMED'', payment_status = ''PAID'',
           order_total = float_literal 1000 100, subtotal = Finite 0 0,
           tax_amount = Finite 0 0, shipping_amount = float_literal 1000 100,
           totals_signature =
             sign_totals example_env (Finite 0 0) (Finite 0 0) (float_literal 1000 100)
               (float_literal 1000 100),
           idempotency_key = Some ''k0'', created_at = ''t0''\<rparr>],
       Order_Items = []\<rparr>,
      [(''http://notification_service:8080/v1/notifications'',
        Notification_data ''ORDER_CONFIRMED'' 7 1340435346
          ''Your order #1340435346 has been confirmed and payment processed successfully.''),
       (''http://shipment_service:8001/v1/shipments'', Shipment_data 1340435346 7 [])]) \<and>
   hd (snd (snd (place_order example_env empty_db None negative_request))) =
     (''http://inventoryservice:3000/v1/inventory/reserve'',
      Reservation_data 4 (- 1) ''k4_4'' ''1340435346'') \<and>
   map order_status
     (Orders (fst (snd (place_order example_env empty_db None negative_request)))) =
     [''CONFIRMED''] \<and>
   Order_Items (fst (snd (place_order example_env empty_db None negative_request))) =
     [\<lparr>row_order_id = 1340435346, row_product_id = 4, row_sku = ''DESK001'',
       row_quantity = - 1, row_unit_price = float_literal 2999 100\<rparr>]"
  using empty_place_order negative_first_post negative_committed
  by (intro conjI) simp_all

text \<open>
  C9. For an order found in \<^verbatim>\<open>Orders\<close>, \<^verbatim>\<open>cancel_order\<close> rejects exactly when the status is
  CANCELLED, SHIPPED or DELIVERED, and it does so with status 400 (bad request) and the
  detail "Cannot cancel order with status: ..."; nothing is posted and the database is
  unchanged. On every other status it posts one release call for each row of
  \<^verbatim>\<open>Order_Items\<close> of the order, keyed by the order's idempotency key, an underscore and
  the product id, with the order id as a string; it does so only if the order's
  idempotency key is neither \<^verbatim>\<open>NULL\<close> nor empty, and posts nothing otherwise. The results
  of the release calls are ignored. Then the status becomes CANCELLED and the answer is
  "Order cancelled successfully", unless the \<^verbatim>\<open>UPDATE\<close> or the commit raises: then the
  answer is status 500 and the database is unchanged, the release calls having been
  posted already.
\<close>

theorem cancel_order_rejects_with_400_and_releases_by_key:
  assumes "find (\<lambda>r. order_id r = oid) (Orders db) = Some order"
  shows "(order_status order \<in> {''CANCELLED'', ''SHIPPED'', ''DELIVERED''} \<longrightarrow>
            cancel_order env db oid =
              (Inl (HTTPException 400
                      (''Cannot cancel order with status: '' @ order_status order)),
               db, [])) \<and>
         (order_status order \<notin> {''CANCELLED'', ''SHIPPED'', ''DELIVERED''} \<longrightarrow>
            snd (snd (cancel_order env db oid)) =
              (case idempotency_key order of
                 None \<Rightarrow> []
               | Some k \<Rightarrow>
                   if k = [] then []
                   else map (\<lambda>l. (INVENTORY_SERVICE_URL @ ''/inventory/release'',
                                  Release_data (k @ ''_'' @ str_int (row_product_id l))
                                    (str_int oid)))
                          (filter (\<lambda>l. row_order_id l = oid) (Order_Items db))) \<and>
            (db_fault env \<noteq> Some 0 \<and> db_fault env \<noteq> Some 1 \<longrightarrow>
               fst (cancel_order env db oid) = Inr (''Order cancelled successfully'', oid) \<and>
               fst (snd (cancel_order env db oid)) =
                 db\<lparr>Orders := map (\<lambda>r. if order_id r = oid
                                        then r\<lparr>order_status := ''CANCELLED''\<rparr> else r)
                                 (Orders db)\<rparr>) \<and>
            (db_fault env = Some 0 \<or> db_fault env = Some 1 \<longrightarrow>
               fst (cancel_order env db oid) = Inl (HTTPException 500 (db_error env)) \<and>
               fst (snd (cancel_order env db oid)) = db))"
  using cancel_order_rejected [OF assms, of env]
    cancel_order_posts [OF assms, of env]
    cancel_order_cancelled [OF assms, of env]
    cancel_order_write_fault [OF assms, of env]
  by blast

theorem cancel_order_rejects_with_400_and_releases_by_key_witness:
  "cancel_order example_env stored_db 41 =
     (Inr (''Order cancelled successfully'', 41),
      \<lparr>Orders = [\<lparr>order_id = 41, customer_id = 7, order_status = ''CANCELLED'',
                  payment_status = ''PAID'', order_total = Finite 0 0, subtotal = Finite 0 0,
                  tax_amount = Finite 0 0, shipping_amount = Finite 0 0,
                  totals_signature = ''s'', idempotency_key = Some ''k1'',
                  created_at = ''t''\<rparr>],
       Order_Items = [\<lparr>row_order_id = 41, row_product_id = 9, row_sku = ''PEN'',
                       row_quantity = 3, row_unit_price = Finite 1 0\<rparr>,
                      \<lparr>row_order_id = 42, row_product_id = 5, row_sku = ''INK'',
                       row_quantity = 1, row_unit_price = Finite 1 0\<rparr>]\<rparr>,
      [(''http://inventoryservice:3000/v1/inventory/release'', Release_data ''k1_9'' ''41'')]) \<and>
   cancel_order example_env shipped_db 41 =
     (Inl (HTTPException 400 ''Cannot cancel order with status: SHIPPED''), shipped_db, []) \<and>
   cancel_order failing_update_env stored_db 41 =
     (Inl (HTTPException 500 ''Lost connection''), stored_db,
      [(''http://inventoryservice:3000/v1/inventory/release'', Release_data ''k1_9'' ''41'')])"
proof -
  note claim = cancel_order_rejects_with_400_and_releases_by_key
  have f: "find (\<lambda>r. order_id r = 41) (Orders stored_db) = Some stored_order"
    by (simp add: stored_db_def stored_order_def)
  have s: "order_status stored_order \<notin> {''CANCELLED'', ''SHIPPED'', ''DELIVERED''}"
    by (simp add: stored_order_def)
  have g: "find (\<lambda>r. order_id r = 41) (Orders shipped_db) =
             Some (stored_order\<lparr>order_status := ''SHIPPED''\<rparr>)"
    by (simp add: shipped_db_def stored_order_def)
  have e: "db_fault example_env \<noteq> Some 0 \<and> db_fault example_env \<noteq> Some 1"
    by (simp add: example_env_def)
  have d: "db_fault failing_update_env = Some 0 \<or> db_fault failing_update_env = Some 1"
    by (simp add: failing_update_env_def)
  from claim [OF f, of example_env] s e
  have "fst (cancel_order example_env stored_db 41) = Inr (''Order cancelled successfully'', 41)"
    and "fst (snd (cancel_order example_env stored_db 41)) =
           stored_db\<lparr>Orders := map (\<lambda>r. if order_id r = 41
                                          then r\<lparr>order_status := ''CANCELLED''\<rparr> else r)
                                   (Orders stored_db)\<rparr>"
    and "snd (snd (cancel_order example_env stored_db 41)) =
           (case idempotency_key stored_order of
              None \<Rightarrow> []
            | Some k \<Rightarrow>
                if k = [] then []
                else map (\<lambda>l. (INVENTORY_SERVICE_URL @ ''/inventory/release'',
                               Release_data (k @ ''_'' @ str_int (row_product_id l))
                                 (str_int 41)))
                       (filter (\<lambda>l. row_order_id l = 41) (Order_Items stored_db)))"
    by blast+
  then have a: "cancel_order example_env stored_db 41 =
     (Inr (''Order cancelled successfully'', 41),
      \<lparr>Orders = [\<lparr>order_id = 41, customer_id = 7, order_status = ''CANCELLED'',
                  payment_status = ''PAID'', order_total = Finite 0 0, subtotal = Finite 0 0,
                  tax_amount = Finite 0 0, shipping_amount = Finite 0 0,
                  totals_signature = ''s'', idempotency_key = Some ''k1'',
                  created_at = ''t''\<rparr>],
       Order_Items = [\<lparr>row_order_id = 41, row_product_id = 9, row_sku = ''PEN'',
                       row_quantity = 3, row_unit_price = Finite 1 0\<rparr>,
                      \<lparr>row_order_id = 42, row_product_id = 5, row_sku = ''INK'',
                       row_quantity = 1, row_unit_price = Finite 1 0\<rparr>]\<rparr>,
      [(''http://inventoryservice:3000/v1/inventory/release'', Release_data ''k1_9'' ''41'')])"
    by (simp add: prod_eq_iff stored_db_def stored_order_def INVENTORY_SERVICE_URL_def
        str_int_def)
  from claim [OF g, of example_env]
  have b: "cancel_order example_env shipped_db 41 =
     (Inl (HTTPException 400 ''Cannot cancel order with status: SHIPPED''), shipped_db, [])"
    by simp
  from claim [OF f, of failing_update_env] s d
  have "fst (cancel_order failing_update_env stored_db 41) =
          Inl (HTTPException 500 (db_error failing_update_env))"
    and "fst (snd (cancel_order failing_update_env stored_db 41)) = stored_db"
    and "snd (snd (cancel_order failing_update_env stored_db 41)) =
           (case idempotency_key stored_order of
              None \<Rightarrow> []
            | Some k \<Rightarrow>
                if k = [] then []
                else map (\<lambda>l. (INVENTORY_SERVICE_URL @ ''/inventory/release'',
                               Release_data (k @ ''_'' @ str_int (row_product_id l))
                                 (str_int 41)))
                       (filter (\<lambda>l. row_order_id l = 41) (Order_Items stored_db)))"
    by blast+
  then have c: "cancel_order failing_update_env stored_db 41 =
     (Inl (HTTPException 500 ''Lost connection''), stored_db,
      [(''http://inventoryservice:3000/v1/inventory/release'', Release_data ''k1_9'' ''41'')])"
    by (simp add: prod_eq_iff failing_update_env_def)
      (simp add: stored_db_def stored_order_def INVENTORY_SERVICE_URL_def str_int_def)
  from a b c show ?thesis
    by (intro conjI)
qed

text \<open>
  Cancelling an order of status SHIPPED is answered with status 400, not with 409
  (conflict); and cancelling an order whose idempotency key is \<^verbatim>\<open>NULL\<close> succeeds without
  any release call although the order has a line.
\<close>

theorem cancel_of_shipped_order_is_bad_request_not_conflict:
  "cancel_order example_env shipped_db 41 =
     (Inl (HTTPException 400 ''Cannot cancel order with status: SHIPPED''), shipped_db, []) \<and>
   fst (cancel_order example_env shipped_db 41) \<noteq>
     Inl (HTTPException 409 ''Cannot cancel order with status: SHIPPED'') \<and>
   filter (\<lambda>l. row_order_id l = 41) (Order_Items keyless_db) =
     [\<lparr>row_order_id = 41, row_product_id = 9, row_sku = ''PEN'',
       row_quantity = 3, row_unit_price = Finite 1 0\<rparr>] \<and>
   fst (cancel_order example_env keyless_db 41) = Inr (''Order cancelled successfully'', 41) \<and>
   snd (snd (cancel_order example_env keyless_db 41)) = []"
  by (simp add: cancel_shipped cancel_keyless) (simp add: keyless_db_def)




end
